theory Spec2Isabelle
  imports Main
begin

section \<open>Linda: the webhook intake and dispatch pipeline\<close>

text \<open>
  The development embeds \<^verbatim>\<open>src/index.ts\<close> (the HTTP handler),
  \<^verbatim>\<open>src/agent/linda.ts\<close> (summariser, classifier, logger, executor, scaffold
  builder, notifier) and \<^verbatim>\<open>src/utils/googleClient.ts\<close> (the spreadsheet client).
  Pure functions become HOL functions. An \<^verbatim>\<open>async\<close> function becomes a function
  that returns the list of calls it made to the outside world together with either the
  error it rejected with or the value it resolved to.
\<close>

subsection \<open>JavaScript strings\<close>

text \<open>
  A string is a list of code units. The 8-bit \<^typ>\<open>char\<close> stands for the code units
  \<open>0x00\<close> to \<open>0xFF\<close>; on these \<^verbatim>\<open>toLowerCase\<close> maps \<open>A\<close>..\<open>Z\<close> and the
  Latin-1 capitals \<open>0xC0\<close>..\<open>0xDE\<close> (without the multiplication sign \<open>0xD7\<close>) to the
  code unit 32 above and leaves every other unit as it is, and \<^verbatim>\<open>trim\<close> removes
  tab, line feed, vertical tab, form feed, carriage return, space and no-break space.
\<close>

definition lower_unit :: "char \<Rightarrow> char" where
  "lower_unit c =
     (let n = (of_char c :: nat)
      in if (65 \<le> n \<and> n \<le> 90) \<or> (192 \<le> n \<and> n \<le> 222 \<and> n \<noteq> 215)
         then char_of (n + 32) else c)"

definition toLowerCase :: "string \<Rightarrow> string" where
  "toLowerCase s = map lower_unit s"

fun startsWith :: "string \<Rightarrow> string \<Rightarrow> bool" where
  "startsWith s [] = True"
| "startsWith [] (n # ns) = False"
| "startsWith (c # cs) (n # ns) = (c = n \<and> startsWith cs ns)"

text \<open>\<^verbatim>\<open>s.includes(n)\<close>: does \<open>n\<close> occur in \<open>s\<close> at some position.\<close>

fun includes_str :: "string \<Rightarrow> string \<Rightarrow> bool" where
  "includes_str [] n = (n = [])"
| "includes_str (c # cs) n = (startsWith (c # cs) n \<or> includes_str cs n)"

definition is_space :: "char \<Rightarrow> bool" where
  "is_space c = (c \<in> set [CHR 0x09, CHR 0x0A, CHR 0x0B, CHR 0x0C, CHR 0x0D, CHR 0x20, CHR 0xA0])"

definition trim :: "string \<Rightarrow> string" where
  "trim s = rev (dropWhile is_space (rev (dropWhile is_space s)))"

text \<open>\<^verbatim>\<open>parts.join(sep)\<close> on strings that are already converted.\<close>

fun join_strings :: "string \<Rightarrow> string list \<Rightarrow> string" where
  "join_strings sep [] = []"
| "join_strings sep [s] = s"
| "join_strings sep (s # t # ss) = s @ sep @ join_strings sep (t # ss)"

text \<open>The decimal digits of a non-negative integer, as a template literal prints it.\<close>

function decimal :: "nat \<Rightarrow> string" where
  "decimal n =
     (if n < 10 then [''0123456789'' ! n]
      else decimal (n div 10) @ [''0123456789'' ! (n mod 10)])"
  by pat_completeness auto
termination
  by (relation "measure id") auto

declare decimal.simps [simp del]

subsection \<open>Errors and JSON values\<close>

datatype error =
    TypeError
  | SyntaxError
  | Error string

text \<open>
  The value \<^verbatim>\<open>JSON.parse\<close> returns. An object keeps its members in the order of the
  text; a later member with the same key replaces an earlier one. A number is carried as
  the text \<^verbatim>\<open>String(n)\<close> gives for it, which is all the summariser ever does with one.
  A value that may be \<^verbatim>\<open>undefined\<close> is a \<open>json option\<close>, \<open>None\<close> being \<^verbatim>\<open>undefined\<close>.
\<close>

datatype json =
    JNull
  | JBool bool
  | JNumber string
  | JString string
  | JArray "json list"
  | JObject "(string \<times> json) list"

definition get_own :: "(string \<times> json) list \<Rightarrow> string \<Rightarrow> json option" where
  "get_own members k = map_of (rev members) k"

text \<open>
  \<^verbatim>\<open>v?.k\<close> for a property name \<open>k\<close> that no built-in prototype defines (all the names
  read by the summariser are such): \<^verbatim>\<open>undefined\<close> on \<^verbatim>\<open>undefined\<close> and \<^verbatim>\<open>null\<close>,
  the own member on an object, \<^verbatim>\<open>undefined\<close> on every other value.
\<close>

fun opt_prop :: "json option \<Rightarrow> string \<Rightarrow> json option" where
  "opt_prop None k = None"
| "opt_prop (Some JNull) k = None"
| "opt_prop (Some (JObject members)) k = get_own members k"
| "opt_prop (Some v) k = None"

text \<open>\<^verbatim>\<open>v.k\<close> on a parsed value: reading a property of \<^verbatim>\<open>null\<close> throws.\<close>

fun get_prop :: "json \<Rightarrow> string \<Rightarrow> error + json option" where
  "get_prop JNull k = Inl TypeError"
| "get_prop v k = Inr (opt_prop (Some v) k)"

text \<open>\<^verbatim>\<open>a ?? b\<close>.\<close>

fun nullish :: "json option \<Rightarrow> json \<Rightarrow> json" where
  "nullish None d = d"
| "nullish (Some JNull) d = d"
| "nullish (Some v) d = v"

text \<open>
  \<^verbatim>\<open>String(v)\<close>, the conversion a template literal and \<^verbatim>\<open>join\<close> apply. An array
  prints as its elements joined by a comma, \<^verbatim>\<open>null\<close> elements as the empty string. A
  plain object prints as \<^verbatim>\<open>[object Object]\<close>, unless it has an own member named
  \<^verbatim>\<open>toString\<close>: that member is not callable and \<^verbatim>\<open>valueOf\<close> returns the object, so
  the conversion throws.
\<close>

fun ToString :: "json \<Rightarrow> error + string"
  and ToStrings :: "json list \<Rightarrow> error + string list" where
  "ToString JNull = Inr ''null''"
| "ToString (JBool b) = Inr (if b then ''true'' else ''false'')"
| "ToString (JNumber s) = Inr s"
| "ToString (JString s) = Inr s"
| "ToString (JArray vs) =
     (case ToStrings vs of Inl e \<Rightarrow> Inl e | Inr ss \<Rightarrow> Inr (join_strings '','' ss))"
| "ToString (JObject members) =
     (case get_own members ''toString'' of
        Some f \<Rightarrow> Inl TypeError
      | None \<Rightarrow> Inr ''[object Object]'')"
| "ToStrings [] = Inr []"
| "ToStrings (v # vs) =
     (case (if v = JNull then Inr [] else ToString v) of
        Inl e \<Rightarrow> Inl e
      | Inr s \<Rightarrow> (case ToStrings vs of Inl e \<Rightarrow> Inl e | Inr ss \<Rightarrow> Inr (s # ss)))"

text \<open>One element of \<^verbatim>\<open>join\<close>: \<^verbatim>\<open>undefined\<close> and \<^verbatim>\<open>null\<close> give the empty string.\<close>

fun join_element :: "json option \<Rightarrow> error + string" where
  "join_element None = Inr []"
| "join_element (Some JNull) = Inr []"
| "join_element (Some v) = ToString v"

fun join_elements :: "json option list \<Rightarrow> error + string list" where
  "join_elements [] = Inr []"
| "join_elements (x # xs) =
     (case join_element x of
        Inl e \<Rightarrow> Inl e
      | Inr s \<Rightarrow> (case join_elements xs of Inl e \<Rightarrow> Inl e | Inr ss \<Rightarrow> Inr (s # ss)))"

definition join :: "json option list \<Rightarrow> string \<Rightarrow> error + string" where
  "join xs sep = (case join_elements xs of Inl e \<Rightarrow> Inl e | Inr ss \<Rightarrow> Inr (join_strings sep ss))"

subsection \<open>Event summariser and action classifier\<close>

text \<open>\<^verbatim>\<open>commits.map((c) => c.message)\<close> on the elements of an array.\<close>

fun map_message :: "json list \<Rightarrow> error + json option list" where
  "map_message [] = Inr []"
| "map_message (c # cs) =
     (case get_prop c ''message'' of
        Inl e \<Rightarrow> Inl e
      | Inr m \<Rightarrow> (case map_message cs of Inl e \<Rightarrow> Inl e | Inr ms \<Rightarrow> Inr (m # ms)))"

text \<open>
  \<^verbatim>\<open>${commits?.map((c) => c.message).join(" | ")}\<close>: the chain stops at an
  \<^verbatim>\<open>undefined\<close> or \<^verbatim>\<open>null\<close> \<open>commits\<close> and the literal prints \<^verbatim>\<open>undefined\<close>; on
  an array it maps and joins; on any other value \<^verbatim>\<open>map\<close> is not a function.
\<close>

fun commits_text :: "json option \<Rightarrow> error + string" where
  "commits_text None = Inr ''undefined''"
| "commits_text (Some JNull) = Inr ''undefined''"
| "commits_text (Some (JArray cs)) =
     (case map_message cs of Inl e \<Rightarrow> Inl e | Inr ms \<Rightarrow> join ms '' | '')"
| "commits_text (Some v) = Inl TypeError"

definition summarizeEvent :: "string \<Rightarrow> json \<Rightarrow> error + string" where
  "summarizeEvent event payload =
     (if event = ''push'' then
        (case get_prop payload ''repository'' of Inl e \<Rightarrow> Inl e | Inr repo \<Rightarrow>
         case get_prop payload ''commits'' of Inl e \<Rightarrow> Inl e | Inr commits \<Rightarrow>
         case ToString (nullish (opt_prop repo ''full_name'') (JString ''unknown'')) of
           Inl e \<Rightarrow> Inl e | Inr name \<Rightarrow>
         case commits_text commits of Inl e \<Rightarrow> Inl e | Inr msgs \<Rightarrow>
         Inr (''Push to '' @ name @ '': '' @ msgs))
      else if event = ''issues'' then
        (case get_prop payload ''issue'' of Inl e \<Rightarrow> Inl e | Inr issue \<Rightarrow>
         case ToString (nullish (opt_prop issue ''title'') (JString [])) of
           Inl e \<Rightarrow> Inl e | Inr title \<Rightarrow>
         case ToString (nullish (opt_prop issue ''body'') (JString [])) of
           Inl e \<Rightarrow> Inl e | Inr body \<Rightarrow>
         Inr (trim (''Issue: '' @ title @ '' '' @ body)))
      else if event = ''issue_comment'' then
        (case get_prop payload ''comment'' of Inl e \<Rightarrow> Inl e | Inr comment \<Rightarrow>
         case ToString (nullish (opt_prop comment ''body'') (JString [])) of
           Inl e \<Rightarrow> Inl e | Inr body \<Rightarrow>
         Inr (trim (''Issue comment: '' @ body)))
      else Inr (''Unhandled event '' @ event))"

definition decideAction :: "string \<Rightarrow> string" where
  "decideAction summary =
     (let lowered = toLowerCase summary
      in if includes_str lowered ''build an agent'' \<or> includes_str lowered ''generate a new agent''
         then ''build-agent''
         else ''fix-or-feature'')"

text \<open>The two values of the specification's Action, as the strings the code returns.\<close>

definition BuildAgent :: string where
  "BuildAgent = ''build-agent''"

definition FixOrFeature :: string where
  "FixOrFeature = ''fix-or-feature''"

subsection \<open>Process configuration, requests and the outside world\<close>

text \<open>\<^verbatim>\<open>process.env\<close>: every variable is a string or \<^verbatim>\<open>undefined\<close>.\<close>

record environment =
  GITHUB_WEBHOOK_SECRET :: "string option"
  OPENAI_MODEL :: "string option"
  GITHUB_TOKEN :: "string option"
  GITHUB_OWNER :: "string option"
  GOOGLE_CLIENT_EMAIL :: "string option"
  GOOGLE_PRIVATE_KEY :: "string option"
  GOOGLE_SHEETS_ID :: "string option"
  GOOGLE_SHEETS_RANGE :: "string option"
  TELEGRAM_BOT_TOKEN :: "string option"
  TELEGRAM_CHAT_ID :: "string option"

text \<open>
  An incoming request: its method, its headers by lower-cased name, and what reading its
  body stream to the end gives (the text, or the stream's error).
\<close>

record request =
  req_method :: string
  req_headers :: "string \<Rightarrow> string option"
  req_body :: "error + string"

text \<open>The JSON body of a response: \<^verbatim>\<open>{message}\<close> or \<^verbatim>\<open>{status: "ok", result}\<close>.\<close>

datatype body =
    Message string
  | Ok string

text \<open>
  A call that leaves the process, with the arguments the code passes. The list of these,
  in order, is what a run did to the outside world.
\<close>

datatype call =
    SheetsAppend string string "string list list"
  | ModelInvoke string "(string \<times> string) list"
  | ReposCreate string string bool
  | GitGetRef string string string
  | GitGetCommit string string string
  | GitCreateBlob string string string string
  | GitCreateTree string string string "(string \<times> string \<times> string \<times> string) list"
  | GitCreateCommit string string string string "string list"
  | GitUpdateRef string string string string
  | SendMessage string string
  | HttpResponse nat body

text \<open>
  The libraries and remote services the code calls, none of which is part of the
  repository: each is a function from the call's arguments to its outcome, \<open>Inl\<close> when
  the call throws or its promise rejects. \<open>verify\<close> is \<^verbatim>\<open>webhooks.verify\<close> with the
  secret the \<^verbatim>\<open>Webhooks\<close> object was built with; the repository host and the chat
  service take the token of their client first, the spreadsheet service the service
  account's e-mail and key.
\<close>

record world =
  verify :: "string \<Rightarrow> string \<Rightarrow> string \<Rightarrow> error + bool"
  JSON_parse :: "string \<Rightarrow> json option"
  Date_toISOString :: string
  Date_now :: nat
  sheets_append :: "string \<times> string \<Rightarrow> string \<Rightarrow> string \<Rightarrow> string list list \<Rightarrow> error + unit"
  model_invoke :: "string \<Rightarrow> (string \<times> string) list \<Rightarrow> error + string"
  repos_create :: "string \<Rightarrow> string \<Rightarrow> string \<Rightarrow> bool \<Rightarrow> error + unit"
  git_getRef :: "string \<Rightarrow> string \<Rightarrow> string \<Rightarrow> string \<Rightarrow> error + string"
  git_getCommit :: "string \<Rightarrow> string \<Rightarrow> string \<Rightarrow> string \<Rightarrow> error + string \<times> string"
  git_createBlob :: "string \<Rightarrow> string \<Rightarrow> string \<Rightarrow> string \<Rightarrow> string \<Rightarrow> error + string"
  git_createTree ::
    "string \<Rightarrow> string \<Rightarrow> string \<Rightarrow> string \<Rightarrow> (string \<times> string \<times> string \<times> string) list
       \<Rightarrow> error + string"
  git_createCommit ::
    "string \<Rightarrow> string \<Rightarrow> string \<Rightarrow> string \<Rightarrow> string \<Rightarrow> string list \<Rightarrow> error + string"
  git_updateRef :: "string \<Rightarrow> string \<Rightarrow> string \<Rightarrow> string \<Rightarrow> string \<Rightarrow> error + unit"
  bot_sendMessage :: "string \<Rightarrow> string \<Rightarrow> string \<Rightarrow> error + unit"

subsection \<open>Promises\<close>

text \<open>
  The run of an \<^verbatim>\<open>async\<close> function: the calls it made, and \<open>Inl\<close> the error it
  rejected with or \<open>Inr\<close> the value it resolved to. \<open>await\<close> runs the continuation
  only after a resolved promise; a rejection is passed on, since no function of the
  repository has a \<^verbatim>\<open>try\<close> or a \<^verbatim>\<open>catch\<close>.
\<close>

type_synonym 'a promise = "call list \<times> (error + 'a)"

definition resolve :: "'a \<Rightarrow> 'a promise" where
  "resolve x = ([], Inr x)"

definition reject :: "error \<Rightarrow> 'a promise" where
  "reject e = ([], Inl e)"

definition perform :: "call \<Rightarrow> error + 'a \<Rightarrow> 'a promise" where
  "perform c outcome = ([c], outcome)"

definition await :: "'a promise \<Rightarrow> ('a \<Rightarrow> 'b promise) \<Rightarrow> 'b promise" where
  "await p k =
     (case snd p of
        Inl e \<Rightarrow> (fst p, Inl e)
      | Inr x \<Rightarrow> (fst p @ fst (k x), snd (k x)))"

text \<open>\<^verbatim>\<open>if (!v) ...\<close> on a string or \<^verbatim>\<open>undefined\<close>: only a non-empty string passes.\<close>

fun truthy :: "string option \<Rightarrow> string option" where
  "truthy None = None"
| "truthy (Some s) = (if s = [] then None else Some s)"

subsection \<open>The spreadsheet client (\<^verbatim>\<open>utils/googleClient.ts\<close>)\<close>

text \<open>\<^verbatim>\<open>key.replace(/\\n/g, "\n")\<close>: a backslash followed by \<open>n\<close> becomes a line feed.\<close>

fun replace_escaped_newlines :: "string \<Rightarrow> string" where
  "replace_escaped_newlines (c # d # cs) =
     (if c = CHR 0x5C \<and> d = CHR ''n'' then CHR 0x0A # replace_escaped_newlines cs
      else c # replace_escaped_newlines (d # cs))"
| "replace_escaped_newlines cs = cs"

definition getAuth :: "environment \<Rightarrow> error + string \<times> string" where
  "getAuth env =
     (let clientEmail = GOOGLE_CLIENT_EMAIL env;
          privateKey = map_option replace_escaped_newlines (GOOGLE_PRIVATE_KEY env)
      in case truthy clientEmail of
           None \<Rightarrow> Inl (Error ''Missing GOOGLE_CLIENT_EMAIL or GOOGLE_PRIVATE_KEY'')
         | Some email \<Rightarrow>
             (case truthy privateKey of
                None \<Rightarrow> Inl (Error ''Missing GOOGLE_CLIENT_EMAIL or GOOGLE_PRIVATE_KEY'')
              | Some key \<Rightarrow> Inr (email, key)))"

definition appendToSheet ::
  "world \<Rightarrow> environment \<Rightarrow> string \<Rightarrow> string \<Rightarrow> string list list \<Rightarrow> unit promise" where
  "appendToSheet w env spreadsheetId range' values =
     (case getAuth env of
        Inl e \<Rightarrow> reject e
      | Inr auth \<Rightarrow>
          perform (SheetsAppend spreadsheetId range' values)
            (sheets_append w auth spreadsheetId range' values))"

subsection \<open>The agent (\<^verbatim>\<open>agent/linda.ts\<close>)\<close>

definition systemPrompt :: string where
  \<open>systemPrompt =
     ''You are Linda, an Elite Senior Developer Assistant and autonomous co-worker.\<newline>'' @
     ''You analyze GitHub events, fix bugs, implement features, and can scaffold new AI agents.\<newline>'' @
     ''If the user explicitly asks to "build an agent" or "generate a new agent", '' @
     ''you must create a new agent codebase and push it to a new repository.''\<close>

definition commitFileToGitHub ::
  "world \<Rightarrow> environment \<Rightarrow> string \<Rightarrow> string \<Rightarrow> string \<Rightarrow> string \<Rightarrow> string \<Rightarrow> string
     \<Rightarrow> string promise" where
  "commitFileToGitHub w env owner repo path message content branch =
     (case truthy (GITHUB_TOKEN env) of
        None \<Rightarrow> resolve ''Missing GITHUB_TOKEN''
      | Some token \<Rightarrow>
          await (perform (GitGetRef owner repo (''heads/'' @ branch))
                   (git_getRef w token owner repo (''heads/'' @ branch))) (\<lambda>ref_sha.
          await (perform (GitGetCommit owner repo ref_sha)
                   (git_getCommit w token owner repo ref_sha)) (\<lambda>(commit_sha, commit_tree).
          await (perform (GitCreateBlob owner repo content ''utf-8'')
                   (git_createBlob w token owner repo content ''utf-8'')) (\<lambda>blob_sha.
          await (perform (GitCreateTree owner repo commit_tree
                            [(path, ''100644'', ''blob'', blob_sha)])
                   (git_createTree w token owner repo commit_tree
                      [(path, ''100644'', ''blob'', blob_sha)])) (\<lambda>tree_sha.
          await (perform (GitCreateCommit owner repo message tree_sha [commit_sha])
                   (git_createCommit w token owner repo message tree_sha [commit_sha]))
            (\<lambda>newCommit_sha.
          await (perform (GitUpdateRef owner repo (''heads/'' @ branch) newCommit_sha)
                   (git_updateRef w token owner repo (''heads/'' @ branch) newCommit_sha))
            (\<lambda>_.
          resolve (''Committed to '' @ owner @ ''/'' @ repo @ '':'' @ path))))))))"

definition sendTelegramNotification :: "world \<Rightarrow> environment \<Rightarrow> string \<Rightarrow> string promise" where
  "sendTelegramNotification w env message =
     (case truthy (TELEGRAM_BOT_TOKEN env) of
        None \<Rightarrow> resolve ''Missing TELEGRAM_BOT_TOKEN or TELEGRAM_CHAT_ID''
      | Some token \<Rightarrow>
          (case truthy (TELEGRAM_CHAT_ID env) of
             None \<Rightarrow> resolve ''Missing TELEGRAM_BOT_TOKEN or TELEGRAM_CHAT_ID''
           | Some chatId \<Rightarrow>
               await (perform (SendMessage chatId message) (bot_sendMessage w token chatId message))
                 (\<lambda>_. resolve ''Telegram notification sent'')))"

definition logToSheet ::
  "world \<Rightarrow> environment \<Rightarrow> string \<Rightarrow> string \<Rightarrow> string \<Rightarrow> unit promise" where
  "logToSheet w env event action summary =
     (let spreadsheetId = GOOGLE_SHEETS_ID env;
          range' = (case GOOGLE_SHEETS_RANGE env of None \<Rightarrow> ''Logs!A:D'' | Some r \<Rightarrow> r)
      in case truthy spreadsheetId of
           None \<Rightarrow> resolve ()
         | Some sid \<Rightarrow>
             appendToSheet w env sid range' [[Date_toISOString w, event, action, summary]])"

definition runAgent :: "world \<Rightarrow> environment \<Rightarrow> string \<Rightarrow> string promise" where
  "runAgent w env summary =
     (let model = (case OPENAI_MODEL env of None \<Rightarrow> ''gpt-4o-mini'' | Some m \<Rightarrow> m);
          messages =
            [(''system'', systemPrompt),
             (''user'', ''Webhook summary: '' @ summary @ [CHR 0x0A] @
                        ''Decide the next developer action.'')]
      in perform (ModelInvoke model messages) (model_invoke w model messages))"

definition buildNewAgentRepo :: "world \<Rightarrow> environment \<Rightarrow> string \<Rightarrow> string promise" where
  "buildNewAgentRepo w env summary =
     (case truthy (GITHUB_TOKEN env) of
        None \<Rightarrow> resolve ''Missing GITHUB_TOKEN''
      | Some token \<Rightarrow>
          (case truthy (GITHUB_OWNER env) of
             None \<Rightarrow> resolve ''Missing GITHUB_OWNER''
           | Some owner \<Rightarrow>
               (let repoName = ''agent-'' @ decimal (Date_now w)
                in await (perform (ReposCreate repoName ''Generated agent scaffold from Linda'' True)
                            (repos_create w token repoName
                               ''Generated agent scaffold from Linda'' True)) (\<lambda>_.
                   let scaffold = ''# '' @ repoName @ [CHR 0x0A, CHR 0x0A] @
                                  ''Generated by Linda. Summary: '' @ summary @ [CHR 0x0A]
                   in await (commitFileToGitHub w env owner repoName ''README.md''
                               ''chore: initial agent scaffold'' scaffold ''main'') (\<lambda>_.
                      resolve (''Created new agent repository: '' @ repoName))))))"

definition handleWebhook :: "world \<Rightarrow> environment \<Rightarrow> string \<Rightarrow> json \<Rightarrow> string promise" where
  "handleWebhook w env event payload =
     (case summarizeEvent event payload of
        Inl e \<Rightarrow> reject e
      | Inr summary \<Rightarrow>
          (let action = decideAction summary
           in await (logToSheet w env event action summary) (\<lambda>_.
              await (if action = ''build-agent'' then buildNewAgentRepo w env summary
                     else runAgent w env summary) (\<lambda>result.
              await (sendTelegramNotification w env
                       (''Linda update: '' @ action @ '' completed. Summary: '' @ summary @
                        ''. Result: '' @ result)) (\<lambda>_.
              resolve result)))))"

subsection \<open>The request handler (\<^verbatim>\<open>index.ts\<close>)\<close>

definition readRawBody :: "request \<Rightarrow> string promise" where
  "readRawBody req = ([], req_body req)"

definition jsonResponse :: "nat \<Rightarrow> body \<Rightarrow> unit promise" where
  "jsonResponse status payload = ([HttpResponse status payload], Inr ())"

definition handler :: "world \<Rightarrow> environment \<Rightarrow> request \<Rightarrow> unit promise" where
  "handler w env req =
     (if req_method req \<noteq> ''POST'' then jsonResponse 405 (Message ''Method Not Allowed'')
      else case truthy (GITHUB_WEBHOOK_SECRET env) of
        None \<Rightarrow> jsonResponse 500 (Message ''Missing GITHUB_WEBHOOK_SECRET'')
      | Some webhookSecret \<Rightarrow>
          await (readRawBody req) (\<lambda>rawBody.
          case truthy (req_headers req ''x-hub-signature-256'') of
            None \<Rightarrow> jsonResponse 400 (Message ''Missing GitHub webhook headers'')
          | Some signature \<Rightarrow>
              (case truthy (req_headers req ''x-github-event'') of
                 None \<Rightarrow> jsonResponse 400 (Message ''Missing GitHub webhook headers'')
               | Some event \<Rightarrow>
                   await ([], verify w webhookSecret rawBody signature) (\<lambda>isValid.
                   if \<not> isValid then jsonResponse 401 (Message ''Invalid signature'')
                   else await (case JSON_parse w rawBody of
                                 None \<Rightarrow> reject SyntaxError
                               | Some payload \<Rightarrow> resolve payload) (\<lambda>payload.
                        await (handleWebhook w env event payload) (\<lambda>result.
                        jsonResponse 200 (Ok result)))))))"

subsection \<open>Notions used to state the properties\<close>

text \<open>
  The specification's wording of the classifier's test: the text contains the literal
  somewhere.
\<close>

definition contains_literal :: "string \<Rightarrow> string \<Rightarrow> bool" where
  "contains_literal s n = (\<exists>p q. s = p @ n @ q)"

text \<open>The collaborator a call goes to.\<close>

datatype service = TabularStore | ReasoningBackend | RepositoryHost | ChatChannel | HttpCaller

fun service_of :: "call \<Rightarrow> service" where
  "service_of (SheetsAppend i r v) = TabularStore"
| "service_of (ModelInvoke m ms) = ReasoningBackend"
| "service_of (SendMessage c m) = ChatChannel"
| "service_of (HttpResponse s b) = HttpCaller"
| "service_of c = RepositoryHost"

text \<open>The HTTP responses a run wrote, in order.\<close>

definition responses :: "call list \<Rightarrow> call list" where
  "responses t = filter (\<lambda>c. service_of c = HttpCaller) t"

text \<open>
  A request that reaches the pipeline: a \<^verbatim>\<open>POST\<close>, the secret configured, the body
  \<open>rawBody\<close> read without a stream error, both headers present and not empty, the event
  header being \<open>event\<close>, and \<^verbatim>\<open>webhooks.verify\<close> resolving to \<^verbatim>\<open>true\<close> on the body
  as read.
\<close>

definition verified :: "world \<Rightarrow> environment \<Rightarrow> request \<Rightarrow> string \<Rightarrow> string \<Rightarrow> bool" where
  "verified w env req rawBody event =
     (req_method req = ''POST'' \<and> req_body req = Inr rawBody \<and>
      truthy (req_headers req ''x-github-event'') = Some event \<and>
      (case truthy (GITHUB_WEBHOOK_SECRET env) of
         None \<Rightarrow> False
       | Some webhookSecret \<Rightarrow>
           (case truthy (req_headers req ''x-hub-signature-256'') of
              None \<Rightarrow> False
            | Some signature \<Rightarrow> verify w webhookSecret rawBody signature = Inr True)))"

text \<open>
  A field that the summariser can print: absent, or a value that \<^verbatim>\<open>String\<close> converts
  (every value but an object with an own member named \<^verbatim>\<open>toString\<close>, or an array that
  holds one). And the text printed for a field: the default when it is absent or
  \<^verbatim>\<open>null\<close>, its conversion otherwise.
\<close>

fun convertible :: "json option \<Rightarrow> bool" where
  "convertible None = True"
| "convertible (Some v) = (\<not> isl (ToString v))"

fun text_or :: "json option \<Rightarrow> string \<Rightarrow> string" where
  "text_or None d = d"
| "text_or (Some JNull) d = d"
| "text_or (Some v) d = (case ToString v of Inl e \<Rightarrow> d | Inr s \<Rightarrow> s)"

text \<open>The dispatch step of \<^verbatim>\<open>handleWebhook\<close>: the builder or the executor.\<close>

definition dispatch :: "world \<Rightarrow> environment \<Rightarrow> string \<Rightarrow> string promise" where
  "dispatch w env summary =
     (if decideAction summary = ''build-agent'' then buildNewAgentRepo w env summary
      else runAgent w env summary)"

text \<open>The text \<^verbatim>\<open>handleWebhook\<close> hands to the notifier.\<close>

definition notification :: "string \<Rightarrow> string \<Rightarrow> string \<Rightarrow> string" where
  "notification action summary result =
     ''Linda update: '' @ action @ '' completed. Summary: '' @ summary @ ''. Result: '' @ result"

text \<open>
  What follows the log step in \<^verbatim>\<open>handleWebhook\<close> and the handler: dispatch,
  notification, and the response 200 with the dispatch result.
\<close>

definition after_log :: "world \<Rightarrow> environment \<Rightarrow> string \<Rightarrow> unit promise" where
  "after_log w env summary =
     await (dispatch w env summary) (\<lambda>result.
     await (sendTelegramNotification w env (notification (decideAction summary) summary result))
       (\<lambda>_. jsonResponse 200 (Ok result)))"

subsection \<open>A concrete world, configuration and requests\<close>

text \<open>
  Used to run the handler on explicit inputs. In this world verification accepts the
  signature \<^verbatim>\<open>sha256=valid\<close> and no other, \<^verbatim>\<open>JSON.parse\<close> is given on the four
  body texts used below and throws on every other text, and every remote call succeeds.
  Each of the worlds after it differs from it in one collaborator, which fails.
\<close>

definition issue_body :: string where
  \<open>issue_body = ''{"issue":{"title":"Build an agent","body":"for metrics"}}''\<close>

definition issue_payload :: json where
  "issue_payload =
     JObject [(''issue'', JObject [(''title'', JString ''Build an agent''),
                                  (''body'', JString ''for metrics'')])]"

definition comment_body :: string where
  \<open>comment_body = ''{"comment":{"body":"please fix the crash on startup"}}''\<close>

definition comment_payload :: json where
  "comment_payload =
     JObject [(''comment'', JObject [(''body'', JString ''please fix the crash on startup'')])]"

definition example_parse :: "string \<Rightarrow> json option" where
  "example_parse text =
     (if text = ''{}'' then Some (JObject [])
      else if text = ''null'' then Some JNull
      else if text = issue_body then Some issue_payload
      else if text = comment_body then Some comment_payload
      else None)"

definition example_world :: world where
  "example_world =
     \<lparr> verify = (\<lambda>secret rawBody signature. Inr (signature = ''sha256=valid'')),
       JSON_parse = example_parse,
       Date_toISOString = ''2024-01-01T00:00:00.000Z'',
       Date_now = 1704067200000,
       sheets_append = (\<lambda>auth spreadsheetId range' values. Inr ()),
       model_invoke = (\<lambda>model messages. Inr ''Open a pull request.''),
       repos_create = (\<lambda>token name description private. Inr ()),
       git_getRef = (\<lambda>token owner repo ref. Inr ''c0''),
       git_getCommit = (\<lambda>token owner repo commit_sha. Inr (commit_sha, ''t0'')),
       git_createBlob = (\<lambda>token owner repo content encoding. Inr ''b1''),
       git_createTree = (\<lambda>token owner repo base_tree tree. Inr ''t1''),
       git_createCommit = (\<lambda>token owner repo message tree parents. Inr ''c1''),
       git_updateRef = (\<lambda>token owner repo ref sha. Inr ()),
       bot_sendMessage = (\<lambda>token chatId text. Inr ()) \<rparr>"

definition failing_store_world :: world where
  "failing_store_world =
     example_world \<lparr> sheets_append :=
       (\<lambda>auth spreadsheetId range' values. Inl (Error ''The caller does not have permission'')) \<rparr>"

definition failing_model_world :: world where
  "failing_model_world =
     example_world \<lparr> model_invoke := (\<lambda>model messages. Inl (Error ''429 Rate limit reached'')) \<rparr>"

definition failing_chat_world :: world where
  "failing_chat_world =
     example_world \<lparr> bot_sendMessage := (\<lambda>token chatId text. Inl (Error ''403 Forbidden'')) \<rparr>"

definition failing_host_world :: world where
  "failing_host_world =
     example_world \<lparr> repos_create :=
       (\<lambda>token name description private. Inl (Error ''422 Repository creation failed'')) \<rparr>"

definition example_environment :: environment where
  "example_environment =
     \<lparr> GITHUB_WEBHOOK_SECRET = Some ''s3cret'',
       OPENAI_MODEL = None,
       GITHUB_TOKEN = Some ''ghp_1'',
       GITHUB_OWNER = Some ''acme'',
       GOOGLE_CLIENT_EMAIL = Some ''linda@acme.example'',
       GOOGLE_PRIVATE_KEY = Some ''k1'',
       GOOGLE_SHEETS_ID = Some ''sheet1'',
       GOOGLE_SHEETS_RANGE = None,
       TELEGRAM_BOT_TOKEN = Some ''bot1'',
       TELEGRAM_CHAT_ID = Some ''chat1'' \<rparr>"

text \<open>A request with the given method, the two webhook headers (if any) and body text.\<close>

definition example_request ::
  "string \<Rightarrow> string option \<Rightarrow> string option \<Rightarrow> string \<Rightarrow> request" where
  "example_request m signature event rawBody =
     \<lparr> req_method = m,
       req_headers = (\<lambda>name. if name = ''x-hub-signature-256'' then signature
                             else if name = ''x-github-event'' then event else None),
       req_body = Inr rawBody \<rparr>"

section \<open>Properties\<close>

subsection \<open>Promises\<close>

lemma await_Inr [simp]: "await (t, Inr x) k = (t @ fst (k x), snd (k x))"
  by (simp add: await_def)

lemma await_Inl [simp]: "await (t, Inl e) k = (t, Inl e)"
  by (simp add: await_def)

lemma await_resolve [simp]: "await (resolve x) k = k x"
  by (simp add: resolve_def)

lemma await_reject [simp]: "await (reject e) k = reject e"
  by (simp add: reject_def)

lemma await_perform_Inr [simp]: "await (perform c (Inr x)) k = (c # fst (k x), snd (k x))"
  by (simp add: perform_def)

lemma await_perform_Inl [simp]: "await (perform c (Inl e)) k = ([c], Inl e)"
  by (simp add: perform_def)

lemma calls_await:
  assumes "\<forall>c\<in>set (fst p). P c" and "\<And>x. \<forall>c\<in>set (fst (k x)). P c"
  shows "\<forall>c\<in>set (fst (await p k)). P c"
  using assms by (cases p; cases "snd p") (auto simp: await_def)

lemma calls_perform: "P c \<Longrightarrow> \<forall>c'\<in>set (fst (perform c outcome)). P c'"
  by (simp add: perform_def)

lemma calls_resolve: "\<forall>c\<in>set (fst (resolve x)). P c"
  by (simp add: resolve_def)

lemma calls_case_prod:
  "(\<And>a b. \<forall>c\<in>set (fst (f a b)). P c) \<Longrightarrow> \<forall>c\<in>set (fst (case_prod f x)). P c"
  by (cases x) simp

subsection \<open>The classifier\<close>

lemma startsWith_iff: "startsWith s n \<longleftrightarrow> (\<exists>q. s = n @ q)"
  by (induction s n rule: startsWith.induct) auto

lemma includes_str_iff: "includes_str s n \<longleftrightarrow> contains_literal s n"
proof (induction s)
  case Nil
  show ?case by (auto simp: contains_literal_def)
next
  case (Cons c cs)
  have "contains_literal (c # cs) n \<longleftrightarrow> (\<exists>q. c # cs = n @ q) \<or> contains_literal cs n"
  proof
    assume "contains_literal (c # cs) n"
    then obtain p q where pq: "c # cs = p @ n @ q"
      by (auto simp: contains_literal_def)
    show "(\<exists>q. c # cs = n @ q) \<or> contains_literal cs n"
    proof (cases p)
      case Nil
      with pq show ?thesis by auto
    next
      case (Cons a p')
      with pq have "cs = p' @ n @ q" by simp
      then show ?thesis by (auto simp: contains_literal_def)
    qed
  next
    assume "(\<exists>q. c # cs = n @ q) \<or> contains_literal cs n"
    then show "contains_literal (c # cs) n"
    proof
      assume "\<exists>q. c # cs = n @ q"
      then obtain q where "c # cs = [] @ n @ q" by auto
      then show ?thesis unfolding contains_literal_def by blast
    next
      assume "contains_literal cs n"
      then obtain p q where "cs = p @ n @ q" by (auto simp: contains_literal_def)
      then have "c # cs = (c # p) @ n @ q" by simp
      then show ?thesis unfolding contains_literal_def by blast
    qed
  qed
  with Cons show ?case by (simp add: startsWith_iff)
qed

lemma lowered_example_1:
  "toLowerCase ''please build an agent for X'' = ''please '' @ ''build an agent'' @ '' for x''"
  by code_simp

lemma lowered_example_2:
  "toLowerCase ''BUILD AN AGENT now'' = [] @ ''build an agent'' @ '' now''"
  by code_simp

lemma decideAction_example_3: "decideAction ''fix the login bug'' = FixOrFeature"
  by code_simp

text \<open>
  C5. The classifier is a total function of the summary alone. It returns \<open>BuildAgent\<close>
  exactly when the lower-cased summary contains the literal \<^verbatim>\<open>build an agent\<close> or the
  literal \<^verbatim>\<open>generate a new agent\<close>, and \<open>FixOrFeature\<close> exactly when it contains
  neither.
\<close>

theorem decideAction_classifies:
  "(decideAction summary = BuildAgent \<longleftrightarrow>
      contains_literal (toLowerCase summary) ''build an agent'' \<or>
      contains_literal (toLowerCase summary) ''generate a new agent'') \<and>
   (decideAction summary = FixOrFeature \<longleftrightarrow>
      \<not> (contains_literal (toLowerCase summary) ''build an agent'' \<or>
         contains_literal (toLowerCase summary) ''generate a new agent''))"
  by (simp add: decideAction_def Let_def BuildAgent_def FixOrFeature_def includes_str_iff)

theorem decideAction_classifies_witness:
  "decideAction ''please build an agent for X'' = BuildAgent \<and>
   decideAction ''BUILD AN AGENT now'' = BuildAgent"
proof -
  have a: "contains_literal (toLowerCase ''please build an agent for X'') ''build an agent''"
    unfolding contains_literal_def lowered_example_1 by blast
  have b: "contains_literal (toLowerCase ''BUILD AN AGENT now'') ''build an agent''"
    unfolding contains_literal_def lowered_example_2 by blast
  show ?thesis
    using decideAction_classifies [of "''please build an agent for X''"]
      decideAction_classifies [of "''BUILD AN AGENT now''"] a b
    by blast
qed

subsection \<open>The summariser\<close>

text \<open>
  C6. The summariser is a function of the event type and the payload only: it takes no
  configuration and no collaborator and makes no call, so equal arguments give equal
  summaries. For a push to \<^verbatim>\<open>acme/widgets\<close> with the commit messages \<^verbatim>\<open>fix bug\<close> and
  \<^verbatim>\<open>add test\<close> the summary is exactly \<^verbatim>\<open>Push to acme/widgets: fix bug | add test\<close>.
\<close>

theorem summarizeEvent_deterministic_push_example:
  "(\<forall>event payload event' payload'.
      event = event' \<and> payload = payload' \<longrightarrow>
      summarizeEvent event payload = summarizeEvent event' payload') \<and>
   summarizeEvent ''push''
     (JObject [(''repository'', JObject [(''full_name'', JString ''acme/widgets'')]),
               (''commits'', JArray [JObject [(''message'', JString ''fix bug'')],
                                    JObject [(''message'', JString ''add test'')]])])
   = Inr ''Push to acme/widgets: fix bug | add test''"
  by (simp add: summarizeEvent_def get_own_def join_def)

theorem summarizeEvent_deterministic_push_example_witness:
  "summarizeEvent ''issues'' (JObject []) = summarizeEvent ''issues'' (JObject []) \<and>
   summarizeEvent ''push''
     (JObject [(''repository'', JObject [(''full_name'', JString ''acme/widgets'')]),
               (''commits'', JArray [JObject [(''message'', JString ''fix bug'')],
                                    JObject [(''message'', JString ''add test'')]])])
   = Inr ''Push to acme/widgets: fix bug | add test''"
  using summarizeEvent_deterministic_push_example by blast

subsection \<open>Which collaborator each component calls\<close>

lemma logToSheet_calls:
  "\<forall>c\<in>set (fst (logToSheet w env event action summary)). service_of c = TabularStore"
  by (auto simp: logToSheet_def appendToSheet_def Let_def resolve_def reject_def perform_def
      split: option.splits sum.splits)

lemma runAgent_calls:
  "\<forall>c\<in>set (fst (runAgent w env summary)). service_of c = ReasoningBackend"
  by (simp add: runAgent_def Let_def perform_def)

lemma commitFileToGitHub_calls:
  "\<forall>c\<in>set (fst (commitFileToGitHub w env owner repo path message content branch)).
     service_of c = RepositoryHost"
proof (cases "truthy (GITHUB_TOKEN env)")
  case None
  then show ?thesis by (simp add: commitFileToGitHub_def resolve_def)
next
  case (Some token)
  show ?thesis
    unfolding commitFileToGitHub_def Some option.case
    by (intro calls_await calls_perform calls_resolve calls_case_prod) simp_all
qed

lemma buildNewAgentRepo_calls:
  "\<forall>c\<in>set (fst (buildNewAgentRepo w env summary)). service_of c = RepositoryHost"
proof (cases "truthy (GITHUB_TOKEN env)")
  case None
  then show ?thesis by (simp add: buildNewAgentRepo_def resolve_def)
next
  case token: (Some token)
  show ?thesis
  proof (cases "truthy (GITHUB_OWNER env)")
    case None
    with token show ?thesis by (simp add: buildNewAgentRepo_def resolve_def)
  next
    case (Some owner)
    show ?thesis
      unfolding buildNewAgentRepo_def token Some option.case Let_def
      by (intro calls_await calls_perform calls_resolve commitFileToGitHub_calls) simp_all
  qed
qed

lemma dispatch_calls:
  "\<forall>c\<in>set (fst (dispatch w env summary)).
     service_of c = RepositoryHost \<or> service_of c = ReasoningBackend"
  using buildNewAgentRepo_calls [of w env summary] runAgent_calls [of w env summary]
  by (simp add: dispatch_def)

lemma sendTelegramNotification_calls:
  "\<forall>c\<in>set (fst (sendTelegramNotification w env message)). service_of c = ChatChannel"
  by (auto simp: sendTelegramNotification_def resolve_def perform_def await_def
      split: option.splits sum.splits)

subsection \<open>The request handler: protocol errors\<close>

lemma example_secret: "truthy (GITHUB_WEBHOOK_SECRET example_environment) = Some ''s3cret''"
  by (simp add: example_environment_def)

text \<open>
  C8, as the code has it. The method and the secret are checked, and the body is read,
  before the headers are looked at. For a \<^verbatim>\<open>POST\<close> request, with the webhook secret
  configured and the body read without a stream error, whose signature header or
  event-type header is missing (or empty), the handler writes the response 400
  \<^verbatim>\<open>Missing GitHub webhook headers\<close> and makes no other call: no log write, no
  dispatch, no notification.
\<close>

theorem handler_missing_header_400:
  assumes "req_method req = ''POST''"
    and "truthy (GITHUB_WEBHOOK_SECRET env) = Some webhookSecret"
    and "req_body req = Inr rawBody"
    and "truthy (req_headers req ''x-hub-signature-256'') = None \<or>
         truthy (req_headers req ''x-github-event'') = None"
  shows "handler w env req =
           ([HttpResponse 400 (Message ''Missing GitHub webhook headers'')], Inr ())"
  using assms
  by (auto simp: handler_def readRawBody_def jsonResponse_def split: option.splits)

theorem handler_missing_header_400_witness:
  "handler example_world example_environment (example_request ''POST'' None (Some ''push'') ''{}'')
     = ([HttpResponse 400 (Message ''Missing GitHub webhook headers'')], Inr ()) \<and>
   handler example_world example_environment
     (example_request ''POST'' (Some ''sha256=valid'') None ''{}'')
     = ([HttpResponse 400 (Message ''Missing GitHub webhook headers'')], Inr ())"
  using handler_missing_header_400
          [of "example_request ''POST'' None (Some ''push'') ''{}''" example_environment
              "''s3cret''" "''{}''" example_world, OF _ example_secret]
        handler_missing_header_400
          [of "example_request ''POST'' (Some ''sha256=valid'') None ''{}''" example_environment
              "''s3cret''" "''{}''" example_world, OF _ example_secret]
  by (simp add: example_request_def)

text \<open>
  The claim C8 as it is written, for every request, fails: without the two headers, a
  \<^verbatim>\<open>GET\<close> request is answered 405, a \<^verbatim>\<open>POST\<close> request to a process without the
  webhook secret is answered 500, and a \<^verbatim>\<open>POST\<close> request whose body stream fails gets
  no response, the handler rejecting with the stream's error.
\<close>

theorem handler_missing_header_counterexample:
  "handler example_world example_environment (example_request ''GET'' None None ''{}'')
     = ([HttpResponse 405 (Message ''Method Not Allowed'')], Inr ()) \<and>
   handler example_world (example_environment \<lparr> GITHUB_WEBHOOK_SECRET := None \<rparr>)
     (example_request ''POST'' None None ''{}'')
     = ([HttpResponse 500 (Message ''Missing GITHUB_WEBHOOK_SECRET'')], Inr ()) \<and>
   handler example_world example_environment
     ((example_request ''POST'' None None ''{}'') \<lparr> req_body := Inl (Error ''aborted'') \<rparr>)
     = ([], Inl (Error ''aborted''))"
  by (simp add: handler_def example_request_def example_environment_def jsonResponse_def
      readRawBody_def)

text \<open>
  C7, as the code has it. For a \<^verbatim>\<open>POST\<close> request, with the webhook secret configured,
  the body read without a stream error and both headers present, for which
  \<^verbatim>\<open>webhooks.verify\<close> resolves to \<^verbatim>\<open>false\<close>, the handler writes the response 401
  \<^verbatim>\<open>Invalid signature\<close> and makes no other call. The verifier is given the body text
  exactly as it was read from the stream; \<^verbatim>\<open>JSON.parse\<close> is not consulted.
\<close>

theorem handler_invalid_signature_401:
  assumes "req_method req = ''POST''"
    and "truthy (GITHUB_WEBHOOK_SECRET env) = Some webhookSecret"
    and "req_body req = Inr rawBody"
    and "truthy (req_headers req ''x-hub-signature-256'') = Some signature"
    and "truthy (req_headers req ''x-github-event'') = Some event"
    and "verify w webhookSecret rawBody signature = Inr False"
  shows "handler w env req = ([HttpResponse 401 (Message ''Invalid signature'')], Inr ())"
  using assms
  by (simp add: handler_def readRawBody_def jsonResponse_def)

theorem handler_invalid_signature_401_witness:
  "handler example_world example_environment
     (example_request ''POST'' (Some ''sha256=forged'') (Some ''push'') ''{}'')
     = ([HttpResponse 401 (Message ''Invalid signature'')], Inr ())"
proof -
  have forged: "verify example_world ''s3cret'' ''{}'' ''sha256=forged'' = Inr False"
    by (simp add: example_world_def)
  show ?thesis
    using handler_invalid_signature_401
            [of "example_request ''POST'' (Some ''sha256=forged'') (Some ''push'') ''{}''"
                example_environment "''s3cret''" "''{}''" "''sha256=forged''" "''push''"
                example_world, OF _ example_secret _ _ _ forged]
    by (simp add: example_request_def)
qed

text \<open>
  The claim C7 as it is written, for every body whose signature does not match, fails: if
  the event-type header is missing the request is answered 400 before the signature is
  looked at, and a \<^verbatim>\<open>GET\<close> request is answered 405.
\<close>

theorem handler_invalid_signature_counterexample:
  "verify example_world ''s3cret'' ''{}'' ''sha256=forged'' = Inr False \<and>
   handler example_world example_environment
     (example_request ''POST'' (Some ''sha256=forged'') None ''{}'')
     = ([HttpResponse 400 (Message ''Missing GitHub webhook headers'')], Inr ()) \<and>
   handler example_world example_environment
     (example_request ''GET'' (Some ''sha256=forged'') (Some ''push'') ''{}'')
     = ([HttpResponse 405 (Message ''Method Not Allowed'')], Inr ())"
  by (simp add: handler_def example_request_def example_world_def example_environment_def
      jsonResponse_def readRawBody_def)

subsection \<open>The summariser on absent and malformed fields\<close>

lemma ToString_convertible:
  "convertible v \<Longrightarrow> ToString (nullish v (JString d)) = Inr (text_or v d)"
proof (cases v)
  case None
  then show ?thesis by simp
next
  case (Some x)
  assume "convertible v"
  with Some show ?thesis by (cases x; cases "ToString x") simp_all
qed

lemma join_element_convertible:
  "convertible v \<Longrightarrow> join_element v = Inr (text_or v [])"
proof (cases v)
  case None
  then show ?thesis by simp
next
  case (Some x)
  assume "convertible v"
  with Some show ?thesis by (cases x; cases "ToString x") simp_all
qed

lemma get_prop_nonnull: "c \<noteq> JNull \<Longrightarrow> get_prop c k = Inr (opt_prop (Some c) k)"
  by (cases c) simp_all

lemma map_message_nonnull:
  "\<forall>c\<in>set cs. c \<noteq> JNull \<Longrightarrow>
   map_message cs = Inr (map (\<lambda>c. opt_prop (Some c) ''message'') cs)"
  by (induction cs) (simp_all add: get_prop_nonnull)

lemma join_elements_convertible:
  "\<forall>m\<in>set ms. convertible m \<Longrightarrow> join_elements ms = Inr (map (\<lambda>m. text_or m []) ms)"
  by (induction ms) (simp_all add: join_element_convertible)

lemma commits_text_array:
  assumes "\<forall>c\<in>set cs. c \<noteq> JNull \<and> convertible (opt_prop (Some c) ''message'')"
  shows "commits_text (Some (JArray cs)) =
           Inr (join_strings '' | '' (map (\<lambda>c. text_or (opt_prop (Some c) ''message'') []) cs))"
proof -
  have "map_message cs = Inr (map (\<lambda>c. opt_prop (Some c) ''message'') cs)"
    using assms by (simp add: map_message_nonnull)
  moreover have "join_elements (map (\<lambda>c. opt_prop (Some c) ''message'') cs) =
      Inr (map (\<lambda>m. text_or m []) (map (\<lambda>c. opt_prop (Some c) ''message'') cs))"
    using assms by (intro join_elements_convertible) simp
  ultimately show ?thesis by (simp add: join_def comp_def)
qed

text \<open>
  With the \<^verbatim>\<open>commits\<close> member absent the optional chain gives \<^verbatim>\<open>undefined\<close> and the
  template literal prints that word.
\<close>

lemma summarizeEvent_missing_commits:
  "summarizeEvent ''push'' (JObject []) = Inr ''Push to unknown: undefined''"
  by (simp add: summarizeEvent_def get_own_def)

text \<open>
  C4, as the code has it. Let the payload be any value but \<^verbatim>\<open>null\<close>, in which each
  text field the summariser reads (the repository's \<^verbatim>\<open>full_name\<close>, each commit's
  \<^verbatim>\<open>message\<close>, the issue's \<^verbatim>\<open>title\<close> and \<^verbatim>\<open>body\<close>, the comment's \<^verbatim>\<open>body\<close>) is
  absent or convertible to a string; the \<^verbatim>\<open>repository\<close>, \<^verbatim>\<open>issue\<close> and \<^verbatim>\<open>comment\<close>
  members themselves may be absent or of any kind. Then the summariser does not raise, and
  \<^item> for \<^verbatim>\<open>push\<close> with \<^verbatim>\<open>commits\<close> an array without \<^verbatim>\<open>null\<close> elements, the summary is
    \<^verbatim>\<open>Push to \<close> name \<^verbatim>\<open>: \<close> messages, the name being \<^verbatim>\<open>unknown\<close> when absent and an
    absent message being the empty string among those joined by \<^verbatim>\<open> | \<close>;
  \<^item> for \<^verbatim>\<open>push\<close> with \<^verbatim>\<open>commits\<close> absent or \<^verbatim>\<open>null\<close>, there is a summary (its text is
    not stated here);
  \<^item> for \<^verbatim>\<open>issues\<close> and \<^verbatim>\<open>issue_comment\<close>, absent fields are the empty string in the
    trimmed text;
  \<^item> for every other event type the summary is \<^verbatim>\<open>Unhandled event \<close> and the type,
    whatever the payload.
\<close>

theorem summarizeEvent_absent_fields:
  fixes payload :: json
  defines "full_name \<equiv> opt_prop (opt_prop (Some payload) ''repository'') ''full_name''"
  defines "title \<equiv> opt_prop (opt_prop (Some payload) ''issue'') ''title''"
  defines "issue_text \<equiv> opt_prop (opt_prop (Some payload) ''issue'') ''body''"
  defines "comment_text \<equiv> opt_prop (opt_prop (Some payload) ''comment'') ''body''"
  shows "(payload \<noteq> JNull \<and> convertible full_name \<and>
          opt_prop (Some payload) ''commits'' = Some (JArray commits) \<and>
          (\<forall>c\<in>set commits. c \<noteq> JNull \<and> convertible (opt_prop (Some c) ''message'')) \<longrightarrow>
            summarizeEvent ''push'' payload =
              Inr (''Push to '' @ text_or full_name ''unknown'' @ '': '' @
                   join_strings '' | ''
                     (map (\<lambda>c. text_or (opt_prop (Some c) ''message'') []) commits))) \<and>
         (payload \<noteq> JNull \<and> convertible full_name \<and>
          (opt_prop (Some payload) ''commits'' = None \<or>
           opt_prop (Some payload) ''commits'' = Some JNull) \<longrightarrow>
            (\<exists>summary. summarizeEvent ''push'' payload = Inr summary)) \<and>
         (payload \<noteq> JNull \<and> convertible title \<and> convertible issue_text \<longrightarrow>
            summarizeEvent ''issues'' payload =
              Inr (trim (''Issue: '' @ text_or title [] @ '' '' @ text_or issue_text []))) \<and>
         (payload \<noteq> JNull \<and> convertible comment_text \<longrightarrow>
            summarizeEvent ''issue_comment'' payload =
              Inr (trim (''Issue comment: '' @ text_or comment_text []))) \<and>
         (event \<noteq> ''push'' \<and> event \<noteq> ''issues'' \<and> event \<noteq> ''issue_comment'' \<longrightarrow>
            summarizeEvent event any_payload = Inr (''Unhandled event '' @ event))"
proof (intro conjI impI)
  assume "payload \<noteq> JNull \<and> convertible full_name \<and>
          opt_prop (Some payload) ''commits'' = Some (JArray commits) \<and>
          (\<forall>c\<in>set commits. c \<noteq> JNull \<and> convertible (opt_prop (Some c) ''message''))"
  then show "summarizeEvent ''push'' payload =
              Inr (''Push to '' @ text_or full_name ''unknown'' @ '': '' @
                   join_strings '' | ''
                     (map (\<lambda>c. text_or (opt_prop (Some c) ''message'') []) commits))"
    unfolding full_name_def
    by (simp add: summarizeEvent_def get_prop_nonnull ToString_convertible commits_text_array
        del: commits_text.simps)
next
  assume "payload \<noteq> JNull \<and> convertible full_name \<and>
          (opt_prop (Some payload) ''commits'' = None \<or>
           opt_prop (Some payload) ''commits'' = Some JNull)"
  then show "\<exists>summary. summarizeEvent ''push'' payload = Inr summary"
    unfolding full_name_def
    by (auto simp: summarizeEvent_def get_prop_nonnull ToString_convertible)
next
  assume "payload \<noteq> JNull \<and> convertible title \<and> convertible issue_text"
  then show "summarizeEvent ''issues'' payload =
              Inr (trim (''Issue: '' @ text_or title [] @ '' '' @ text_or issue_text []))"
    unfolding title_def issue_text_def
    by (simp add: summarizeEvent_def get_prop_nonnull ToString_convertible)
next
  assume "payload \<noteq> JNull \<and> convertible comment_text"
  then show "summarizeEvent ''issue_comment'' payload =
              Inr (trim (''Issue comment: '' @ text_or comment_text []))"
    unfolding comment_text_def
    by (simp add: summarizeEvent_def get_prop_nonnull ToString_convertible)
next
  assume "event \<noteq> ''push'' \<and> event \<noteq> ''issues'' \<and> event \<noteq> ''issue_comment''"
  then show "summarizeEvent event any_payload = Inr (''Unhandled event '' @ event)"
    by (simp add: summarizeEvent_def)
qed

theorem summarizeEvent_absent_fields_witness:
  "summarizeEvent ''push''
     (JObject [(''commits'', JArray [JObject [], JObject [(''message'', JString ''add test'')]])])
     = Inr ''Push to unknown:  | add test'' \<and>
   (\<exists>summary. summarizeEvent ''push'' (JObject [(''repository'', JString ''acme'')]) = Inr summary) \<and>
   summarizeEvent ''issues'' (JObject [(''issue'', JObject [(''title'', JString ''Crash'')])])
     = Inr ''Issue: Crash'' \<and>
   summarizeEvent ''issue_comment'' (JArray []) = Inr ''Issue comment:'' \<and>
   summarizeEvent ''ping'' JNull = Inr ''Unhandled event ping''"
  using summarizeEvent_absent_fields
          [where payload = "JObject [(''commits'',
                     JArray [JObject [], JObject [(''message'', JString ''add test'')]])]"
             and commits = "[JObject [], JObject [(''message'', JString ''add test'')]]"
             and event = "''ping''" and any_payload = JNull]
        summarizeEvent_absent_fields
          [where payload = "JObject [(''repository'', JString ''acme'')]" and commits = "[]"
             and event = "''ping''" and any_payload = JNull]
        summarizeEvent_absent_fields
          [where payload = "JObject [(''issue'', JObject [(''title'', JString ''Crash'')])]"
             and commits = "[]" and event = "''ping''" and any_payload = JNull]
        summarizeEvent_absent_fields
          [where payload = "JArray []" and commits = "[]" and event = "''ping''"
             and any_payload = JNull]
  by (simp add: get_own_def trim_def is_space_def)

text \<open>
  The claim C4 as it is written, for every malformed payload and with the empty string
  for every absent field, fails: \<^verbatim>\<open>commits\<close> that is not an array raises, the payload
  \<^verbatim>\<open>null\<close> raises, a title that is an object with a member \<^verbatim>\<open>toString\<close> raises, and
  an absent repository is printed as \<^verbatim>\<open>unknown\<close>.
\<close>

theorem summarizeEvent_absent_fields_counterexample:
  "summarizeEvent ''push'' (JObject [(''commits'', JString ''none'')]) = Inl TypeError \<and>
   summarizeEvent ''issues'' JNull = Inl TypeError \<and>
   summarizeEvent ''issues''
     (JObject [(''issue'', JObject [(''title'', JObject [(''toString'', JNumber ''1'')])])])
     = Inl TypeError \<and>
   summarizeEvent ''push'' (JObject [(''commits'', JArray [])]) = Inr ''Push to unknown: ''"
  by (simp add: summarizeEvent_def get_own_def join_def)

subsection \<open>The pipeline of a verified request\<close>

lemma handleWebhook_unfold:
  "summarizeEvent event payload = Inr summary \<Longrightarrow>
   handleWebhook w env event payload =
     await (logToSheet w env event (decideAction summary) summary) (\<lambda>_.
     await (dispatch w env summary) (\<lambda>result.
     await (sendTelegramNotification w env (notification (decideAction summary) summary result))
       (\<lambda>_. resolve result)))"
  by (simp add: handleWebhook_def dispatch_def notification_def Let_def)

lemma handleWebhook_raise:
  "summarizeEvent event payload = Inl e \<Longrightarrow> handleWebhook w env event payload = ([], Inl e)"
  by (simp add: handleWebhook_def reject_def)

lemma handler_verified:
  assumes "verified w env req rawBody event"
  shows "handler w env req =
     await (case JSON_parse w rawBody of None \<Rightarrow> reject SyntaxError | Some payload \<Rightarrow> resolve payload)
       (\<lambda>payload. await (handleWebhook w env event payload) (\<lambda>result. jsonResponse 200 (Ok result)))"
  using assms
  by (auto simp: verified_def handler_def readRawBody_def split: option.splits)

lemma handleWebhook_calls:
  "\<forall>c\<in>set (fst (handleWebhook w env event payload)). service_of c \<noteq> HttpCaller"
proof (cases "summarizeEvent event payload")
  case (Inl e)
  then show ?thesis by (simp add: handleWebhook_raise)
next
  case (Inr summary)
  have l: "\<forall>c\<in>set (fst (logToSheet w env event (decideAction summary) summary)).
             service_of c \<noteq> HttpCaller"
    using logToSheet_calls [of w env event "decideAction summary" summary] by simp
  have d: "\<forall>c\<in>set (fst (dispatch w env summary)). service_of c \<noteq> HttpCaller"
    using dispatch_calls [of w env summary] by auto
  have n: "\<forall>c\<in>set (fst (sendTelegramNotification w env m)). service_of c \<noteq> HttpCaller" for m
    using sendTelegramNotification_calls [of w env m] by simp
  show ?thesis
    unfolding handleWebhook_unfold [OF Inr]
    by (intro calls_await calls_resolve l d n)
qed

lemma responses_handleWebhook [simp]: "responses (fst (handleWebhook w env event payload)) = []"
  using handleWebhook_calls [of w env event payload]
  by (simp add: responses_def filter_empty_conv)

lemma responses_append [simp]: "responses (t @ u) = responses t @ responses u"
  by (simp add: responses_def)

lemma responses_HttpResponse [simp]: "responses [HttpResponse s b] = [HttpResponse s b]"
  by (simp add: responses_def)

lemma responses_Nil [simp]: "responses [] = []"
  by (simp add: responses_def)

lemma handler_responses:
  "responses (fst (handler w env req)) =
     (case snd (handler w env req) of Inl e \<Rightarrow> [] | Inr u \<Rightarrow> [last (fst (handler w env req))])"
  by (cases "handleWebhook w env (the (truthy (req_headers req ''x-github-event''))) (the (JSON_parse w (projr (req_body req))))")
     (auto simp: handler_def readRawBody_def jsonResponse_def await_def reject_def resolve_def
      split: option.splits sum.splits)

lemma await_assoc: "await (await p k) h = await p (\<lambda>x. await (k x) h)"
  by (cases p; cases "snd p") (auto simp: await_def split: sum.splits)

lemma handler_pipeline:
  assumes "verified w env req rawBody event" and "JSON_parse w rawBody = Some payload"
    and "summarizeEvent event payload = Inr summary"
  shows "handler w env req =
           await (logToSheet w env event (decideAction summary) summary)
             (\<lambda>_. after_log w env summary)"
  by (simp add: handler_verified [OF assms(1)] assms(2) handleWebhook_unfold [OF assms(3)]
      await_assoc after_log_def)

lemma logToSheet_unconfigured:
  "truthy (GOOGLE_SHEETS_ID env) = None \<Longrightarrow> logToSheet w env event action summary = ([], Inr ())"
  by (simp add: logToSheet_def resolve_def)

lemma logToSheet_no_auth:
  "truthy (GOOGLE_SHEETS_ID env) = Some sid \<Longrightarrow> getAuth env = Inl e \<Longrightarrow>
   logToSheet w env event action summary = ([], Inl e)"
  by (simp add: logToSheet_def appendToSheet_def reject_def)

lemma logToSheet_append:
  "truthy (GOOGLE_SHEETS_ID env) = Some sid \<Longrightarrow> getAuth env = Inr auth \<Longrightarrow>
   logToSheet w env event action summary =
     ([SheetsAppend sid (case GOOGLE_SHEETS_RANGE env of None \<Rightarrow> ''Logs!A:D'' | Some r \<Rightarrow> r)
         [[Date_toISOString w, event, action, summary]]],
      sheets_append w auth sid (case GOOGLE_SHEETS_RANGE env of None \<Rightarrow> ''Logs!A:D'' | Some r \<Rightarrow> r)
         [[Date_toISOString w, event, action, summary]])"
  by (simp add: logToSheet_def appendToSheet_def perform_def)

lemma sendTelegramNotification_unconfigured:
  "truthy (TELEGRAM_BOT_TOKEN env) = None \<or> truthy (TELEGRAM_CHAT_ID env) = None \<Longrightarrow>
   sendTelegramNotification w env message =
     ([], Inr ''Missing TELEGRAM_BOT_TOKEN or TELEGRAM_CHAT_ID'')"
  by (auto simp: sendTelegramNotification_def resolve_def split: option.splits)

lemma sendTelegramNotification_configured:
  "truthy (TELEGRAM_BOT_TOKEN env) = Some token \<Longrightarrow> truthy (TELEGRAM_CHAT_ID env) = Some chatId \<Longrightarrow>
   sendTelegramNotification w env message =
     ([SendMessage chatId message],
      case bot_sendMessage w token chatId message of
        Inl e \<Rightarrow> Inl e
      | Inr u \<Rightarrow> Inr ''Telegram notification sent'')"
  by (simp add: sendTelegramNotification_def perform_def await_def resolve_def split: sum.splits)

lemma sendTelegramNotification_sends:
  "SendMessage chatId m \<in> set (fst (sendTelegramNotification w env message)) \<Longrightarrow> m = message"
  by (auto simp: sendTelegramNotification_def resolve_def perform_def await_def
      split: option.splits sum.splits)

subsection \<open>Runs in the concrete worlds\<close>

lemma comment_summary:
  "summarizeEvent ''issue_comment'' comment_payload =
     Inr ''Issue comment: please fix the crash on startup''"
  by (simp add: summarizeEvent_def comment_payload_def get_own_def trim_def is_space_def)

lemma comment_action:
  "decideAction ''Issue comment: please fix the crash on startup'' = ''fix-or-feature''"
  by code_simp

lemma issue_summary:
  "summarizeEvent ''issues'' issue_payload = Inr ''Issue: Build an agent for metrics''"
  by (simp add: summarizeEvent_def issue_payload_def get_own_def trim_def is_space_def)

lemma issue_action: "decideAction ''Issue: Build an agent for metrics'' = ''build-agent''"
  by code_simp

lemma ping_summary: "summarizeEvent ''ping'' (JObject []) = Inr ''Unhandled event ping''"
  by (simp add: summarizeEvent_def)

lemma ping_action: "decideAction ''Unhandled event ping'' = ''fix-or-feature''"
  by code_simp

lemma example_parse_bodies:
  "example_parse ''{}'' = Some (JObject [])"
  "example_parse ''null'' = Some JNull"
  "example_parse issue_body = Some issue_payload"
  "example_parse comment_body = Some comment_payload"
  "example_parse ''not json'' = None"
  by (simp_all add: example_parse_def issue_body_def comment_body_def)

lemma example_worlds_parse:
  "JSON_parse example_world = example_parse"
  "JSON_parse failing_store_world = example_parse"
  "JSON_parse failing_model_world = example_parse"
  "JSON_parse failing_chat_world = example_parse"
  by (simp_all add: example_world_def failing_store_world_def failing_model_world_def
      failing_chat_world_def)

lemma example_worlds_verified:
  "verified example_world example_environment
     (example_request ''POST'' (Some ''sha256=valid'') (Some event) rawBody) rawBody event
   \<longleftrightarrow> event \<noteq> []"
  "verified failing_store_world example_environment
     (example_request ''POST'' (Some ''sha256=valid'') (Some event) rawBody) rawBody event
   \<longleftrightarrow> event \<noteq> []"
  "verified failing_model_world example_environment
     (example_request ''POST'' (Some ''sha256=valid'') (Some event) rawBody) rawBody event
   \<longleftrightarrow> event \<noteq> []"
  "verified failing_chat_world example_environment
     (example_request ''POST'' (Some ''sha256=valid'') (Some event) rawBody) rawBody event
   \<longleftrightarrow> event \<noteq> []"
  by (simp_all add: verified_def example_request_def example_world_def example_environment_def
      failing_store_world_def failing_model_world_def failing_chat_world_def)

lemma example_getAuth: "getAuth example_environment = Inr (''linda@acme.example'', ''k1'')"
  by (simp add: getAuth_def example_environment_def)

lemma example_truthy:
  "truthy (GOOGLE_SHEETS_ID example_environment) = Some ''sheet1''"
  "truthy (TELEGRAM_BOT_TOKEN example_environment) = Some ''bot1''"
  "truthy (TELEGRAM_CHAT_ID example_environment) = Some ''chat1''"
  "truthy (GITHUB_TOKEN example_environment) = Some ''ghp_1''"
  "truthy (GITHUB_OWNER example_environment) = Some ''acme''"
  "GOOGLE_SHEETS_RANGE example_environment = None"
  "OPENAI_MODEL example_environment = None"
  by (simp_all add: example_environment_def)

lemma example_log:
  "logToSheet example_world example_environment event action summary =
     ([SheetsAppend ''sheet1'' ''Logs!A:D'' [[''2024-01-01T00:00:00.000Z'', event, action, summary]]],
      Inr ())"
  "logToSheet failing_chat_world example_environment event action summary =
     ([SheetsAppend ''sheet1'' ''Logs!A:D'' [[''2024-01-01T00:00:00.000Z'', event, action, summary]]],
      Inr ())"
  "logToSheet failing_model_world example_environment event action summary =
     ([SheetsAppend ''sheet1'' ''Logs!A:D'' [[''2024-01-01T00:00:00.000Z'', event, action, summary]]],
      Inr ())"
  by (simp_all add: logToSheet_append [OF example_truthy(1) example_getAuth] example_truthy
      example_world_def failing_chat_world_def failing_model_world_def)

lemma example_runAgent:
  "runAgent example_world example_environment summary =
     ([ModelInvoke ''gpt-4o-mini''
         [(''system'', systemPrompt),
          (''user'', ''Webhook summary: '' @ summary @ [CHR 0x0A] @
                     ''Decide the next developer action.'')]],
      Inr ''Open a pull request.'')"
  "runAgent failing_chat_world example_environment summary =
     ([ModelInvoke ''gpt-4o-mini''
         [(''system'', systemPrompt),
          (''user'', ''Webhook summary: '' @ summary @ [CHR 0x0A] @
                     ''Decide the next developer action.'')]],
      Inr ''Open a pull request.'')"
  "runAgent failing_model_world example_environment summary =
     ([ModelInvoke ''gpt-4o-mini''
         [(''system'', systemPrompt),
          (''user'', ''Webhook summary: '' @ summary @ [CHR 0x0A] @
                     ''Decide the next developer action.'')]],
      Inl (Error ''429 Rate limit reached''))"
  by (simp_all add: runAgent_def example_truthy perform_def example_world_def
      failing_chat_world_def failing_model_world_def)

lemma example_send:
  "bot_sendMessage example_world token chatId text = Inr ()"
  "bot_sendMessage failing_chat_world token chatId text = Inl (Error ''403 Forbidden'')"
  by (simp_all add: example_world_def failing_chat_world_def)

lemma example_handleWebhook_comment:
  "handleWebhook example_world example_environment ''issue_comment'' comment_payload =
     ([SheetsAppend ''sheet1'' ''Logs!A:D''
         [[''2024-01-01T00:00:00.000Z'', ''issue_comment'', ''fix-or-feature'',
           ''Issue comment: please fix the crash on startup'']],
       ModelInvoke ''gpt-4o-mini''
         [(''system'', systemPrompt),
          (''user'', ''Webhook summary: Issue comment: please fix the crash on startup'' @
                     [CHR 0x0A] @ ''Decide the next developer action.'')],
       SendMessage ''chat1''
         (''Linda update: fix-or-feature completed. Summary: '' @
          ''Issue comment: please fix the crash on startup. Result: Open a pull request.'')],
      Inr ''Open a pull request.'')"
  by (simp add: handleWebhook_unfold [OF comment_summary] comment_action example_log
      dispatch_def example_runAgent notification_def
      sendTelegramNotification_configured [OF example_truthy(2,3)] example_send resolve_def)

lemma failing_store_append:
  "sheets_append failing_store_world auth spreadsheetId range' values =
     Inl (Error ''The caller does not have permission'')"
  "Date_toISOString failing_store_world = ''2024-01-01T00:00:00.000Z''"
  by (simp_all add: failing_store_world_def example_world_def)

subsection \<open>Responses, and failures of the logger and the notifier\<close>

text \<open>
  C2, as the code has it. Every run of the handler writes at most one HTTP response: one
  when the handler resolves, none when it rejects. For a request that passes signature
  verification: if the body does not parse the handler rejects with the parser's error
  and writes no response; if the pipeline rejects, the handler rejects with the same error
  after the same calls and writes no response; if the pipeline resolves to a result, the
  handler writes 200 \<^verbatim>\<open>{status: "ok", result}\<close> after the pipeline's calls.
\<close>

theorem handler_one_response_iff_resolved:
  "length (responses (fst (handler w env req))) =
     (case snd (handler w env req) of Inl e \<Rightarrow> 0 | Inr u \<Rightarrow> 1) \<and>
   (verified w env req rawBody event \<longrightarrow>
      (case JSON_parse w rawBody of
         None \<Rightarrow> handler w env req = ([], Inl SyntaxError)
       | Some payload \<Rightarrow>
           (case snd (handleWebhook w env event payload) of
              Inl e \<Rightarrow> handler w env req = (fst (handleWebhook w env event payload), Inl e)
            | Inr result \<Rightarrow>
                handler w env req =
                  (fst (handleWebhook w env event payload) @ [HttpResponse 200 (Ok result)],
                   Inr ()))))"
proof
  show "length (responses (fst (handler w env req))) =
     (case snd (handler w env req) of Inl e \<Rightarrow> 0 | Inr u \<Rightarrow> 1)"
    by (simp add: handler_responses split: sum.splits)
next
  show "verified w env req rawBody event \<longrightarrow>
      (case JSON_parse w rawBody of
         None \<Rightarrow> handler w env req = ([], Inl SyntaxError)
       | Some payload \<Rightarrow>
           (case snd (handleWebhook w env event payload) of
              Inl e \<Rightarrow> handler w env req = (fst (handleWebhook w env event payload), Inl e)
            | Inr result \<Rightarrow>
                handler w env req =
                  (fst (handleWebhook w env event payload) @ [HttpResponse 200 (Ok result)],
                   Inr ())))"
    by (auto simp: handler_verified reject_def resolve_def await_def jsonResponse_def
        split: option.splits sum.splits)
qed

theorem handler_one_response_iff_resolved_witness:
  "verified example_world example_environment
     (example_request ''POST'' (Some ''sha256=valid'') (Some ''issue_comment'') comment_body)
     comment_body ''issue_comment'' \<and>
   handler example_world example_environment
     (example_request ''POST'' (Some ''sha256=valid'') (Some ''issue_comment'') comment_body) =
     ([SheetsAppend ''sheet1'' ''Logs!A:D''
         [[''2024-01-01T00:00:00.000Z'', ''issue_comment'', ''fix-or-feature'',
           ''Issue comment: please fix the crash on startup'']],
       ModelInvoke ''gpt-4o-mini''
         [(''system'', systemPrompt),
          (''user'', ''Webhook summary: Issue comment: please fix the crash on startup'' @
                     [CHR 0x0A] @ ''Decide the next developer action.'')],
       SendMessage ''chat1''
         (''Linda update: fix-or-feature completed. Summary: '' @
          ''Issue comment: please fix the crash on startup. Result: Open a pull request.''),
       HttpResponse 200 (Ok ''Open a pull request.'')],
      Inr ())"
  using handler_one_response_iff_resolved
          [of example_world example_environment
              "example_request ''POST'' (Some ''sha256=valid'') (Some ''issue_comment'') comment_body"
              comment_body "''issue_comment''"]
  by (simp add: example_worlds_verified example_worlds_parse example_parse_bodies
      example_handleWebhook_comment)

text \<open>
  The claim C2 as it is written, with a response for every request, fails: a verified
  request whose body does not parse, and one whose dispatch step fails, end with the
  handler rejecting and no response written.
\<close>

theorem handler_one_response_counterexample:
  "verified example_world example_environment
     (example_request ''POST'' (Some ''sha256=valid'') (Some ''push'') ''not json'')
     ''not json'' ''push'' \<and>
   JSON_parse example_world ''not json'' = None \<and>
   handler example_world example_environment
     (example_request ''POST'' (Some ''sha256=valid'') (Some ''push'') ''not json'')
     = ([], Inl SyntaxError) \<and>
   verified failing_model_world example_environment
     (example_request ''POST'' (Some ''sha256=valid'') (Some ''ping'') ''{}'') ''{}'' ''ping'' \<and>
   handler failing_model_world example_environment
     (example_request ''POST'' (Some ''sha256=valid'') (Some ''ping'') ''{}'')
     = ([SheetsAppend ''sheet1'' ''Logs!A:D''
           [[''2024-01-01T00:00:00.000Z'', ''ping'', ''fix-or-feature'', ''Unhandled event ping'']],
         ModelInvoke ''gpt-4o-mini''
           [(''system'', systemPrompt),
            (''user'', ''Webhook summary: Unhandled event ping'' @ [CHR 0x0A] @
                       ''Decide the next developer action.'')]],
        Inl (Error ''429 Rate limit reached''))"
proof -
  have a: "verified example_world example_environment
     (example_request ''POST'' (Some ''sha256=valid'') (Some ''push'') ''not json'')
     ''not json'' ''push''"
    by (simp add: example_worlds_verified)
  have b: "verified failing_model_world example_environment
     (example_request ''POST'' (Some ''sha256=valid'') (Some ''ping'') ''{}'') ''{}'' ''ping''"
    by (simp add: example_worlds_verified)
  have p: "JSON_parse failing_model_world ''{}'' = Some (JObject [])"
    by (simp add: example_worlds_parse example_parse_bodies)
  show ?thesis
    by (simp add: a b handler_verified [OF a] handler_pipeline [OF b p ping_summary]
        example_worlds_parse example_parse_bodies ping_action example_log after_log_def
        dispatch_def example_runAgent reject_def)
qed

text \<open>
  C1, as the code has it. A failing append is not isolated. For a verified request whose
  body parses and whose summary is computed, with a spreadsheet configured: if the
  credentials of the service account are missing, or the append call fails, the handler
  rejects with that error, having made no call but the attempted append: no dispatch, no
  notification, no HTTP response. If the append succeeds, or no spreadsheet is
  configured (then no append is attempted), the run goes on with dispatch, notification
  and the response.
\<close>

theorem log_failure_rejects_request:
  assumes "verified w env req rawBody event" and "JSON_parse w rawBody = Some payload"
    and "summarizeEvent event payload = Inr summary"
  defines "range' \<equiv> (case GOOGLE_SHEETS_RANGE env of None \<Rightarrow> ''Logs!A:D'' | Some r \<Rightarrow> r)"
  defines "row \<equiv> [Date_toISOString w, event, decideAction summary, summary]"
  shows "(truthy (GOOGLE_SHEETS_ID env) = Some sid \<and> getAuth env = Inl e \<longrightarrow>
            handler w env req = ([], Inl e)) \<and>
         (truthy (GOOGLE_SHEETS_ID env) = Some sid \<and> getAuth env = Inr auth \<and>
          sheets_append w auth sid range' [row] = Inl e \<longrightarrow>
            handler w env req = ([SheetsAppend sid range' [row]], Inl e)) \<and>
         (truthy (GOOGLE_SHEETS_ID env) = Some sid \<and> getAuth env = Inr auth \<and>
          sheets_append w auth sid range' [row] = Inr () \<longrightarrow>
            handler w env req =
              (SheetsAppend sid range' [row] # fst (after_log w env summary),
               snd (after_log w env summary))) \<and>
         (truthy (GOOGLE_SHEETS_ID env) = None \<longrightarrow>
            handler w env req = after_log w env summary)"
  unfolding range'_def row_def handler_pipeline [OF assms(1-3)]
  by (auto simp: logToSheet_unconfigured logToSheet_no_auth logToSheet_append)

theorem log_failure_rejects_request_witness:
  "handler failing_store_world example_environment
     (example_request ''POST'' (Some ''sha256=valid'') (Some ''issue_comment'') comment_body) =
     ([SheetsAppend ''sheet1'' ''Logs!A:D''
         [[''2024-01-01T00:00:00.000Z'', ''issue_comment'', ''fix-or-feature'',
           ''Issue comment: please fix the crash on startup'']]],
      Inl (Error ''The caller does not have permission''))"
proof -
  have v: "verified failing_store_world example_environment
     (example_request ''POST'' (Some ''sha256=valid'') (Some ''issue_comment'') comment_body)
     comment_body ''issue_comment''"
    by (simp add: example_worlds_verified)
  have p: "JSON_parse failing_store_world comment_body = Some comment_payload"
    by (simp add: example_worlds_parse example_parse_bodies)
  show ?thesis
    using log_failure_rejects_request
            [OF v p comment_summary, of "''sheet1''" "Error ''The caller does not have permission''"
               "(''linda@acme.example'', ''k1'')"]
    by (simp add: example_truthy example_getAuth failing_store_append comment_action)
qed

text \<open>
  The claim C1 as it is written fails: when the append is refused by the store, or the
  service account's key is not configured, the handler rejects with that error after at
  most the attempted append; nothing is dispatched and no response is written.
\<close>

theorem log_failure_counterexample:
  "verified failing_store_world example_environment
     (example_request ''POST'' (Some ''sha256=valid'') (Some ''issues'') issue_body)
     issue_body ''issues'' \<and>
   handler failing_store_world example_environment
     (example_request ''POST'' (Some ''sha256=valid'') (Some ''issues'') issue_body) =
     ([SheetsAppend ''sheet1'' ''Logs!A:D''
         [[''2024-01-01T00:00:00.000Z'', ''issues'', ''build-agent'',
           ''Issue: Build an agent for metrics'']]],
      Inl (Error ''The caller does not have permission'')) \<and>
   verified example_world (example_environment \<lparr> GOOGLE_PRIVATE_KEY := None \<rparr>)
     (example_request ''POST'' (Some ''sha256=valid'') (Some ''issues'') issue_body)
     issue_body ''issues'' \<and>
   handler example_world (example_environment \<lparr> GOOGLE_PRIVATE_KEY := None \<rparr>)
     (example_request ''POST'' (Some ''sha256=valid'') (Some ''issues'') issue_body) =
     ([], Inl (Error ''Missing GOOGLE_CLIENT_EMAIL or GOOGLE_PRIVATE_KEY''))"
proof -
  have v: "verified failing_store_world example_environment
     (example_request ''POST'' (Some ''sha256=valid'') (Some ''issues'') issue_body)
     issue_body ''issues''"
    by (simp add: example_worlds_verified)
  have p: "JSON_parse failing_store_world issue_body = Some issue_payload"
    by (simp add: example_worlds_parse example_parse_bodies)
  have v': "verified example_world (example_environment \<lparr> GOOGLE_PRIVATE_KEY := None \<rparr>)
     (example_request ''POST'' (Some ''sha256=valid'') (Some ''issues'') issue_body)
     issue_body ''issues''"
    by (simp add: verified_def example_request_def example_world_def example_environment_def)
  have p': "JSON_parse example_world issue_body = Some issue_payload"
    by (simp add: example_worlds_parse example_parse_bodies)
  have s: "truthy (GOOGLE_SHEETS_ID (example_environment \<lparr> GOOGLE_PRIVATE_KEY := None \<rparr>))
             = Some ''sheet1''"
    by (simp add: example_environment_def)
  have g: "getAuth (example_environment \<lparr> GOOGLE_PRIVATE_KEY := None \<rparr>) =
             Inl (Error ''Missing GOOGLE_CLIENT_EMAIL or GOOGLE_PRIVATE_KEY'')"
    by (simp add: getAuth_def example_environment_def)
  show ?thesis
    by (simp add: v v' handler_pipeline [OF v p issue_summary]
        handler_pipeline [OF v' p' issue_summary]
        logToSheet_append [OF example_truthy(1) example_getAuth] logToSheet_no_auth [OF s g]
        example_truthy failing_store_append issue_action)
qed

text \<open>
  C3, as the code has it. A failing send-message call is not isolated. For a verified
  request whose log step and dispatch step have succeeded with a result: if the bot token
  or the chat id is absent, the notifier makes no call and resolves to the text
  \<^verbatim>\<open>Missing TELEGRAM_BOT_TOKEN or TELEGRAM_CHAT_ID\<close>, and the handler answers 200 with
  the result; if both are present and the send succeeds, the handler answers 200 with the
  result after the send; if the send fails, the handler rejects with that error after the
  send and writes no response, so the caller does not get the result.
\<close>

theorem notifier_failure_rejects_request:
  assumes "verified w env req rawBody event" and "JSON_parse w rawBody = Some payload"
    and "summarizeEvent event payload = Inr summary"
    and "logToSheet w env event (decideAction summary) summary = (logged, Inr ())"
    and "dispatch w env summary = (dispatched, Inr result)"
  defines "message \<equiv> notification (decideAction summary) summary result"
  shows "(truthy (TELEGRAM_BOT_TOKEN env) = None \<or> truthy (TELEGRAM_CHAT_ID env) = None \<longrightarrow>
            sendTelegramNotification w env message =
              ([], Inr ''Missing TELEGRAM_BOT_TOKEN or TELEGRAM_CHAT_ID'') \<and>
            handler w env req =
              (logged @ dispatched @ [HttpResponse 200 (Ok result)], Inr ())) \<and>
         (truthy (TELEGRAM_BOT_TOKEN env) = Some token \<and>
          truthy (TELEGRAM_CHAT_ID env) = Some chatId \<and>
          bot_sendMessage w token chatId message = Inr () \<longrightarrow>
            handler w env req =
              (logged @ dispatched @ [SendMessage chatId message, HttpResponse 200 (Ok result)],
               Inr ())) \<and>
         (truthy (TELEGRAM_BOT_TOKEN env) = Some token \<and>
          truthy (TELEGRAM_CHAT_ID env) = Some chatId \<and>
          bot_sendMessage w token chatId message = Inl e \<longrightarrow>
            handler w env req = (logged @ dispatched @ [SendMessage chatId message], Inl e))"
  unfolding message_def handler_pipeline [OF assms(1-3)] assms(4) after_log_def assms(5)
  by (auto simp: sendTelegramNotification_unconfigured sendTelegramNotification_configured
      jsonResponse_def)

theorem notifier_failure_rejects_request_witness:
  "handler failing_chat_world example_environment
     (example_request ''POST'' (Some ''sha256=valid'') (Some ''issue_comment'') comment_body) =
     ([SheetsAppend ''sheet1'' ''Logs!A:D''
         [[''2024-01-01T00:00:00.000Z'', ''issue_comment'', ''fix-or-feature'',
           ''Issue comment: please fix the crash on startup'']],
       ModelInvoke ''gpt-4o-mini''
         [(''system'', systemPrompt),
          (''user'', ''Webhook summary: Issue comment: please fix the crash on startup'' @
                     [CHR 0x0A] @ ''Decide the next developer action.'')],
       SendMessage ''chat1''
         (''Linda update: fix-or-feature completed. Summary: '' @
          ''Issue comment: please fix the crash on startup. Result: Open a pull request.'')],
      Inl (Error ''403 Forbidden''))"
proof -
  have v: "verified failing_chat_world example_environment
     (example_request ''POST'' (Some ''sha256=valid'') (Some ''issue_comment'') comment_body)
     comment_body ''issue_comment''"
    by (simp add: example_worlds_verified)
  have p: "JSON_parse failing_chat_world comment_body = Some comment_payload"
    by (simp add: example_worlds_parse example_parse_bodies)
  have d: "dispatch failing_chat_world example_environment
             ''Issue comment: please fix the crash on startup'' =
           ([ModelInvoke ''gpt-4o-mini''
               [(''system'', systemPrompt),
                (''user'', ''Webhook summary: Issue comment: please fix the crash on startup'' @
                           [CHR 0x0A] @ ''Decide the next developer action.'')]],
            Inr ''Open a pull request.'')"
    by (simp add: dispatch_def comment_action example_runAgent)
  show ?thesis
    using notifier_failure_rejects_request
            [OF v p comment_summary example_log(2) d, of "''bot1''" "''chat1''"
               "Error ''403 Forbidden''"]
    by (simp add: example_truthy example_send notification_def comment_action)
qed

text \<open>
  The claim C3 as it is written fails: the dispatch step has resolved to
  \<^verbatim>\<open>Open a pull request.\<close>, the send-message call fails, and the handler rejects
  instead of answering with that result.
\<close>

theorem notifier_failure_counterexample:
  "verified failing_chat_world example_environment
     (example_request ''POST'' (Some ''sha256=valid'') (Some ''ping'') ''{}'') ''{}'' ''ping'' \<and>
   dispatch failing_chat_world example_environment ''Unhandled event ping'' =
     ([ModelInvoke ''gpt-4o-mini''
         [(''system'', systemPrompt),
          (''user'', ''Webhook summary: Unhandled event ping'' @ [CHR 0x0A] @
                     ''Decide the next developer action.'')]],
      Inr ''Open a pull request.'') \<and>
   handler failing_chat_world example_environment
     (example_request ''POST'' (Some ''sha256=valid'') (Some ''ping'') ''{}'') =
     ([SheetsAppend ''sheet1'' ''Logs!A:D''
         [[''2024-01-01T00:00:00.000Z'', ''ping'', ''fix-or-feature'', ''Unhandled event ping'']],
       ModelInvoke ''gpt-4o-mini''
         [(''system'', systemPrompt),
          (''user'', ''Webhook summary: Unhandled event ping'' @ [CHR 0x0A] @
                     ''Decide the next developer action.'')],
       SendMessage ''chat1''
         (''Linda update: fix-or-feature completed. Summary: '' @
          ''Unhandled event ping. Result: Open a pull request.'')],
      Inl (Error ''403 Forbidden''))"
proof -
  have v: "verified failing_chat_world example_environment
     (example_request ''POST'' (Some ''sha256=valid'') (Some ''ping'') ''{}'') ''{}'' ''ping''"
    by (simp add: example_worlds_verified)
  have p: "JSON_parse failing_chat_world ''{}'' = Some (JObject [])"
    by (simp add: example_worlds_parse example_parse_bodies)
  show ?thesis
    by (simp add: v handler_pipeline [OF v p ping_summary] ping_action example_log after_log_def
        dispatch_def example_runAgent notification_def
        sendTelegramNotification_configured [OF example_truthy(2,3)] example_send)
qed

text \<open>
  C10. Every message that a run of \<^verbatim>\<open>handleWebhook\<close> sends to the chat channel is the
  text \<^verbatim>\<open>Linda update: \<close> action \<^verbatim>\<open> completed. Summary: \<close> summary \<^verbatim>\<open>. Result: \<close>
  result, where the summary is the summariser's, the action is the classifier's and is one
  of the literals \<^verbatim>\<open>build-agent\<close> and \<^verbatim>\<open>fix-or-feature\<close>, and the result is what the
  dispatch step resolved to.
\<close>

theorem notification_text:
  assumes "SendMessage chatId message \<in> set (fst (handleWebhook w env event payload))"
  shows "\<exists>summary result.
           summarizeEvent event payload = Inr summary \<and>
           snd (dispatch w env summary) = Inr result \<and>
           (decideAction summary = ''build-agent'' \<or> decideAction summary = ''fix-or-feature'') \<and>
           message = ''Linda update: '' @ decideAction summary @ '' completed. Summary: '' @
                     summary @ ''. Result: '' @ result"
proof (cases "summarizeEvent event payload")
  case (Inl e)
  with assms show ?thesis by (simp add: handleWebhook_raise)
next
  case (Inr summary)
  obtain logged l where l: "logToSheet w env event (decideAction summary) summary = (logged, l)"
    by (cases "logToSheet w env event (decideAction summary) summary")
  obtain dispatched d where d: "dispatch w env summary = (dispatched, d)"
    by (cases "dispatch w env summary")
  have nl: "SendMessage chatId message \<notin> set logged"
    using logToSheet_calls [of w env event "decideAction summary" summary] l by auto
  have nd: "SendMessage chatId message \<notin> set dispatched"
    using dispatch_calls [of w env summary] d by auto
  have action: "decideAction summary = ''build-agent'' \<or> decideAction summary = ''fix-or-feature''"
    by (simp add: decideAction_def Let_def)
  show ?thesis
  proof (cases l)
    case (Inl e)
    with assms nl show ?thesis by (simp add: handleWebhook_unfold [OF Inr] l)
  next
    case logged_ok: (Inr u)
    show ?thesis
    proof (cases d)
      case (Inl e)
      with assms nl nd logged_ok show ?thesis by (simp add: handleWebhook_unfold [OF Inr] l d)
    next
      case (Inr result)
      have "SendMessage chatId message \<in> set (fst (sendTelegramNotification w env
              (notification (decideAction summary) summary result)))"
        using assms nl nd logged_ok Inr
        by (auto simp: handleWebhook_unfold [OF \<open>summarizeEvent event payload = Inr summary\<close>]
            l d await_def resolve_def split: sum.splits)
      then have "message = notification (decideAction summary) summary result"
        by (rule sendTelegramNotification_sends)
      with \<open>summarizeEvent event payload = Inr summary\<close> d Inr action show ?thesis
        by (simp add: notification_def)
    qed
  qed
qed

theorem notification_text_witness:
  "SendMessage ''chat1''
     (''Linda update: fix-or-feature completed. Summary: '' @
      ''Issue comment: please fix the crash on startup. Result: Open a pull request.'')
     \<in> set (fst (handleWebhook example_world example_environment ''issue_comment'' comment_payload)) \<and>
   (\<exists>summary result.
      summarizeEvent ''issue_comment'' comment_payload = Inr summary \<and>
      snd (dispatch example_world example_environment summary) = Inr result \<and>
      (decideAction summary = ''build-agent'' \<or> decideAction summary = ''fix-or-feature'') \<and>
      ''Linda update: fix-or-feature completed. Summary: '' @
      ''Issue comment: please fix the crash on startup. Result: Open a pull request.'' =
      ''Linda update: '' @ decideAction summary @ '' completed. Summary: '' @
      summary @ ''. Result: '' @ result)"
proof -
  have sent: "SendMessage ''chat1''
     (''Linda update: fix-or-feature completed. Summary: '' @
      ''Issue comment: please fix the crash on startup. Result: Open a pull request.'')
     \<in> set (fst (handleWebhook example_world example_environment ''issue_comment'' comment_payload))"
    by (simp add: example_handleWebhook_comment)
  from notification_text [OF sent] sent show ?thesis by blast
qed

subsection \<open>The scaffold builder\<close>

lemma perform_cases:
  "await (perform c outcome) k =
     (case outcome of Inl e \<Rightarrow> ([c], Inl e) | Inr x \<Rightarrow> (c # fst (k x), snd (k x)))"
  by (simp add: perform_def await_def split: sum.splits)

lemma buildNewAgentRepo_unconfigured:
  "truthy (GITHUB_TOKEN env) = None \<Longrightarrow>
     buildNewAgentRepo w env summary = ([], Inr ''Missing GITHUB_TOKEN'')"
  "truthy (GITHUB_TOKEN env) = Some token \<Longrightarrow> truthy (GITHUB_OWNER env) = None \<Longrightarrow>
     buildNewAgentRepo w env summary = ([], Inr ''Missing GITHUB_OWNER'')"
  by (simp_all add: buildNewAgentRepo_def resolve_def)

lemma buildNewAgentRepo_configured:
  assumes "truthy (GITHUB_TOKEN env) = Some token" and "truthy (GITHUB_OWNER env) = Some owner"
  shows "buildNewAgentRepo w env summary =
     await (perform (ReposCreate (''agent-'' @ decimal (Date_now w))
                       ''Generated agent scaffold from Linda'' True)
              (repos_create w token (''agent-'' @ decimal (Date_now w))
                 ''Generated agent scaffold from Linda'' True)) (\<lambda>_.
     await (commitFileToGitHub w env owner (''agent-'' @ decimal (Date_now w)) ''README.md''
              ''chore: initial agent scaffold''
              (''# '' @ (''agent-'' @ decimal (Date_now w)) @ [CHR 0x0A, CHR 0x0A] @
               ''Generated by Linda. Summary: '' @ summary @ [CHR 0x0A]) ''main'') (\<lambda>_.
     resolve (''Created new agent repository: '' @ (''agent-'' @ decimal (Date_now w)))))"
  using assms by (simp add: buildNewAgentRepo_def Let_def)

lemma commitFileToGitHub_resolved:
  assumes "truthy (GITHUB_TOKEN env) = Some token"
    and "snd (commitFileToGitHub w env owner repo path message content branch) = Inr s"
  shows "length (fst (commitFileToGitHub w env owner repo path message content branch)) = 6"
  using assms
  by (auto simp: commitFileToGitHub_def perform_cases resolve_def split: sum.splits prod.splits)

lemma commitFileToGitHub_success:
  assumes "truthy (GITHUB_TOKEN env) = Some token"
    and "git_getRef w token owner repo (''heads/'' @ branch) = Inr ref_sha"
    and "git_getCommit w token owner repo ref_sha = Inr (commit_sha, commit_tree)"
    and "git_createBlob w token owner repo content ''utf-8'' = Inr blob_sha"
    and "git_createTree w token owner repo commit_tree [(path, ''100644'', ''blob'', blob_sha)]
           = Inr tree_sha"
    and "git_createCommit w token owner repo message tree_sha [commit_sha] = Inr newCommit_sha"
    and "git_updateRef w token owner repo (''heads/'' @ branch) newCommit_sha = Inr ()"
  shows "commitFileToGitHub w env owner repo path message content branch =
           ([GitGetRef owner repo (''heads/'' @ branch),
             GitGetCommit owner repo ref_sha,
             GitCreateBlob owner repo content ''utf-8'',
             GitCreateTree owner repo commit_tree [(path, ''100644'', ''blob'', blob_sha)],
             GitCreateCommit owner repo message tree_sha [commit_sha],
             GitUpdateRef owner repo (''heads/'' @ branch) newCommit_sha],
            Inr (''Committed to '' @ owner @ ''/'' @ repo @ '':'' @ path))"
  using assms by (simp add: commitFileToGitHub_def resolve_def)

lemma example_repoName:
  "decimal (Date_now example_world) = ''1704067200000''"
  "decimal (Date_now failing_host_world) = ''1704067200000''"
  by (simp_all add: example_world_def failing_host_world_def decimal.simps)

lemma example_host:
  "repos_create example_world token name description private = Inr ()"
  "git_getRef example_world token owner repo ref = Inr ''c0''"
  "git_getCommit example_world token owner repo commit_sha = Inr (commit_sha, ''t0'')"
  "git_createBlob example_world token owner repo content encoding = Inr ''b1''"
  "git_createTree example_world token owner repo base_tree tree = Inr ''t1''"
  "git_createCommit example_world token owner repo message tree_sha parents = Inr ''c1''"
  "git_updateRef example_world token owner repo ref sha = Inr ()"
  "repos_create failing_host_world token name description private =
     Inl (Error ''422 Repository creation failed'')"
  by (simp_all add: example_world_def failing_host_world_def)

text \<open>
  C9, as the code has it. If the repository-host token is absent (or empty) the builder
  resolves to \<^verbatim>\<open>Missing GITHUB_TOKEN\<close>, and if the owner is absent (or empty) to
  \<^verbatim>\<open>Missing GITHUB_OWNER\<close>, in both cases without any remote call. With both present
  its first call creates a private repository named \<^verbatim>\<open>agent-\<close> followed by the current
  time in milliseconds. If that call fails the builder rejects with its error and makes no
  further call. If it and the six calls of the commit sequence succeed, the builder has
  committed \<^verbatim>\<open>README.md\<close> with the scaffold text to \<^verbatim>\<open>heads/main\<close> and resolves to
  \<^verbatim>\<open>Created new agent repository: \<close> and the name. Whenever it resolves with both
  present, it resolves to that text, after exactly these seven calls.
\<close>

theorem buildNewAgentRepo_outcomes:
  fixes w :: world and env :: environment and summary :: string
  defines "repoName \<equiv> ''agent-'' @ decimal (Date_now w)"
  defines "scaffold \<equiv> ''# '' @ repoName @ [CHR 0x0A, CHR 0x0A] @
                       ''Generated by Linda. Summary: '' @ summary @ [CHR 0x0A]"
  defines "created \<equiv> ReposCreate repoName ''Generated agent scaffold from Linda'' True"
  shows "(truthy (GITHUB_TOKEN env) = None \<longrightarrow>
            buildNewAgentRepo w env summary = ([], Inr ''Missing GITHUB_TOKEN'')) \<and>
         (truthy (GITHUB_TOKEN env) = Some token \<and> truthy (GITHUB_OWNER env) = None \<longrightarrow>
            buildNewAgentRepo w env summary = ([], Inr ''Missing GITHUB_OWNER'')) \<and>
         (truthy (GITHUB_TOKEN env) = Some token \<and> truthy (GITHUB_OWNER env) = Some owner \<and>
          repos_create w token repoName ''Generated agent scaffold from Linda'' True = Inl e \<longrightarrow>
            buildNewAgentRepo w env summary = ([created], Inl e)) \<and>
         (truthy (GITHUB_TOKEN env) = Some token \<and> truthy (GITHUB_OWNER env) = Some owner \<and>
          repos_create w token repoName ''Generated agent scaffold from Linda'' True = Inr () \<and>
          git_getRef w token owner repoName ''heads/main'' = Inr ref_sha \<and>
          git_getCommit w token owner repoName ref_sha = Inr (commit_sha, commit_tree) \<and>
          git_createBlob w token owner repoName scaffold ''utf-8'' = Inr blob_sha \<and>
          git_createTree w token owner repoName commit_tree
            [(''README.md'', ''100644'', ''blob'', blob_sha)] = Inr tree_sha \<and>
          git_createCommit w token owner repoName ''chore: initial agent scaffold'' tree_sha
            [commit_sha] = Inr newCommit_sha \<and>
          git_updateRef w token owner repoName ''heads/main'' newCommit_sha = Inr () \<longrightarrow>
            buildNewAgentRepo w env summary =
              ([created,
                GitGetRef owner repoName ''heads/main'',
                GitGetCommit owner repoName ref_sha,
                GitCreateBlob owner repoName scaffold ''utf-8'',
                GitCreateTree owner repoName commit_tree
                  [(''README.md'', ''100644'', ''blob'', blob_sha)],
                GitCreateCommit owner repoName ''chore: initial agent scaffold'' tree_sha
                  [commit_sha],
                GitUpdateRef owner repoName ''heads/main'' newCommit_sha],
               Inr (''Created new agent repository: '' @ repoName))) \<and>
         (truthy (GITHUB_TOKEN env) = Some token \<and> truthy (GITHUB_OWNER env) = Some owner \<longrightarrow>
            (\<exists>rest. fst (buildNewAgentRepo w env summary) = created # rest) \<and>
            (\<forall>s. snd (buildNewAgentRepo w env summary) = Inr s \<longrightarrow>
                 s = ''Created new agent repository: '' @ repoName \<and>
                 length (fst (buildNewAgentRepo w env summary)) = 7))"
proof (intro conjI impI)
  assume "truthy (GITHUB_TOKEN env) = None"
  then show "buildNewAgentRepo w env summary = ([], Inr ''Missing GITHUB_TOKEN'')"
    by (rule buildNewAgentRepo_unconfigured)
next
  assume "truthy (GITHUB_TOKEN env) = Some token \<and> truthy (GITHUB_OWNER env) = None"
  then show "buildNewAgentRepo w env summary = ([], Inr ''Missing GITHUB_OWNER'')"
    by (simp add: buildNewAgentRepo_unconfigured)
next
  assume "truthy (GITHUB_TOKEN env) = Some token \<and> truthy (GITHUB_OWNER env) = Some owner \<and>
          repos_create w token repoName ''Generated agent scaffold from Linda'' True = Inl e"
  then show "buildNewAgentRepo w env summary = ([created], Inl e)"
    unfolding repoName_def created_def
    by (simp add: buildNewAgentRepo_configured)
next
  assume a: "truthy (GITHUB_TOKEN env) = Some token \<and> truthy (GITHUB_OWNER env) = Some owner \<and>
          repos_create w token repoName ''Generated agent scaffold from Linda'' True = Inr () \<and>
          git_getRef w token owner repoName ''heads/main'' = Inr ref_sha \<and>
          git_getCommit w token owner repoName ref_sha = Inr (commit_sha, commit_tree) \<and>
          git_createBlob w token owner repoName scaffold ''utf-8'' = Inr blob_sha \<and>
          git_createTree w token owner repoName commit_tree
            [(''README.md'', ''100644'', ''blob'', blob_sha)] = Inr tree_sha \<and>
          git_createCommit w token owner repoName ''chore: initial agent scaffold'' tree_sha
            [commit_sha] = Inr newCommit_sha \<and>
          git_updateRef w token owner repoName ''heads/main'' newCommit_sha = Inr ()"
  then have "commitFileToGitHub w env owner repoName ''README.md''
               ''chore: initial agent scaffold'' scaffold ''main'' =
             ([GitGetRef owner repoName ''heads/main'',
               GitGetCommit owner repoName ref_sha,
               GitCreateBlob owner repoName scaffold ''utf-8'',
               GitCreateTree owner repoName commit_tree
                 [(''README.md'', ''100644'', ''blob'', blob_sha)],
               GitCreateCommit owner repoName ''chore: initial agent scaffold'' tree_sha
                 [commit_sha],
               GitUpdateRef owner repoName ''heads/main'' newCommit_sha],
              Inr (''Committed to '' @ owner @ ''/'' @ repoName @ '':'' @ ''README.md''))"
    using commitFileToGitHub_success
            [of env token w owner repoName "''main''" ref_sha commit_sha commit_tree scaffold
                blob_sha "''README.md''" tree_sha "''chore: initial agent scaffold''"
                newCommit_sha]
    by simp
  with a show "buildNewAgentRepo w env summary =
              ([created,
                GitGetRef owner repoName ''heads/main'',
                GitGetCommit owner repoName ref_sha,
                GitCreateBlob owner repoName scaffold ''utf-8'',
                GitCreateTree owner repoName commit_tree
                  [(''README.md'', ''100644'', ''blob'', blob_sha)],
                GitCreateCommit owner repoName ''chore: initial agent scaffold'' tree_sha
                  [commit_sha],
                GitUpdateRef owner repoName ''heads/main'' newCommit_sha],
               Inr (''Created new agent repository: '' @ repoName))"
    unfolding repoName_def scaffold_def created_def
    by (simp add: buildNewAgentRepo_configured resolve_def)
next
  assume a: "truthy (GITHUB_TOKEN env) = Some token \<and> truthy (GITHUB_OWNER env) = Some owner"
  then show "\<exists>rest. fst (buildNewAgentRepo w env summary) = created # rest"
    unfolding repoName_def created_def
    by (simp add: buildNewAgentRepo_configured perform_cases split: sum.splits)
next
  assume a: "truthy (GITHUB_TOKEN env) = Some token \<and> truthy (GITHUB_OWNER env) = Some owner"
  show "\<forall>s. snd (buildNewAgentRepo w env summary) = Inr s \<longrightarrow>
            s = ''Created new agent repository: '' @ repoName \<and>
            length (fst (buildNewAgentRepo w env summary)) = 7"
  proof (intro allI impI)
    fix s
    assume s: "snd (buildNewAgentRepo w env summary) = Inr s"
    obtain committed c where c: "commitFileToGitHub w env owner repoName ''README.md''
        ''chore: initial agent scaffold'' scaffold ''main'' = (committed, c)"
      by (cases "commitFileToGitHub w env owner repoName ''README.md''
        ''chore: initial agent scaffold'' scaffold ''main''")
    have b: "buildNewAgentRepo w env summary =
        (case repos_create w token repoName ''Generated agent scaffold from Linda'' True of
           Inl e \<Rightarrow> ([created], Inl e)
         | Inr u \<Rightarrow>
             (case c of
                Inl e \<Rightarrow> (created # committed, Inl e)
              | Inr t \<Rightarrow> (created # committed,
                           Inr (''Created new agent repository: '' @ repoName))))"
      using a c unfolding repoName_def scaffold_def created_def
      by (simp add: buildNewAgentRepo_configured perform_cases resolve_def split: sum.splits)
    from s b obtain t where t: "c = Inr t"
      and r: "buildNewAgentRepo w env summary =
                (created # committed, Inr (''Created new agent repository: '' @ repoName))"
      by (auto split: sum.splits)
    have "length committed = 6"
      using a c t commitFileToGitHub_resolved [of env token w owner repoName "''README.md''"
          "''chore: initial agent scaffold''" scaffold "''main''" t]
      by simp
    with s r show "s = ''Created new agent repository: '' @ repoName \<and>
            length (fst (buildNewAgentRepo w env summary)) = 7"
      by simp
  qed
qed

theorem buildNewAgentRepo_outcomes_witness:
  "buildNewAgentRepo example_world example_environment ''Issue: Build an agent for metrics'' =
     ([ReposCreate ''agent-1704067200000'' ''Generated agent scaffold from Linda'' True,
       GitGetRef ''acme'' ''agent-1704067200000'' ''heads/main'',
       GitGetCommit ''acme'' ''agent-1704067200000'' ''c0'',
       GitCreateBlob ''acme'' ''agent-1704067200000''
         (''# agent-1704067200000'' @ [CHR 0x0A, CHR 0x0A] @
          ''Generated by Linda. Summary: Issue: Build an agent for metrics'' @ [CHR 0x0A])
         ''utf-8'',
       GitCreateTree ''acme'' ''agent-1704067200000'' ''t0''
         [(''README.md'', ''100644'', ''blob'', ''b1'')],
       GitCreateCommit ''acme'' ''agent-1704067200000'' ''chore: initial agent scaffold'' ''t1''
         [''c0''],
       GitUpdateRef ''acme'' ''agent-1704067200000'' ''heads/main'' ''c1''],
      Inr ''Created new agent repository: agent-1704067200000'') \<and>
   buildNewAgentRepo example_world (example_environment \<lparr> GITHUB_TOKEN := None \<rparr>)
     ''Issue: Build an agent for metrics'' = ([], Inr ''Missing GITHUB_TOKEN'') \<and>
   buildNewAgentRepo example_world (example_environment \<lparr> GITHUB_OWNER := Some [] \<rparr>)
     ''Issue: Build an agent for metrics'' = ([], Inr ''Missing GITHUB_OWNER'')"
proof -
  have no_token: "truthy (GITHUB_TOKEN (example_environment \<lparr> GITHUB_TOKEN := None \<rparr>)) = None"
    by simp
  have no_owner:
    "truthy (GITHUB_TOKEN (example_environment \<lparr> GITHUB_OWNER := Some [] \<rparr>)) = Some ''ghp_1'' \<and>
     truthy (GITHUB_OWNER (example_environment \<lparr> GITHUB_OWNER := Some [] \<rparr>)) = None"
    by (simp add: example_environment_def)
  have success:
    "truthy (GITHUB_TOKEN example_environment) = Some ''ghp_1'' \<and>
     truthy (GITHUB_OWNER example_environment) = Some ''acme'' \<and>
     repos_create example_world ''ghp_1'' (''agent-'' @ decimal (Date_now example_world))
       ''Generated agent scaffold from Linda'' True = Inr () \<and>
     git_getRef example_world ''ghp_1'' ''acme'' (''agent-'' @ decimal (Date_now example_world))
       ''heads/main'' = Inr ''c0'' \<and>
     git_getCommit example_world ''ghp_1'' ''acme'' (''agent-'' @ decimal (Date_now example_world))
       ''c0'' = Inr (''c0'', ''t0'') \<and>
     git_createBlob example_world ''ghp_1'' ''acme'' (''agent-'' @ decimal (Date_now example_world))
       (''# '' @ (''agent-'' @ decimal (Date_now example_world)) @ [CHR 0x0A, CHR 0x0A] @
        ''Generated by Linda. Summary: '' @ ''Issue: Build an agent for metrics'' @ [CHR 0x0A])
       ''utf-8'' = Inr ''b1'' \<and>
     git_createTree example_world ''ghp_1'' ''acme'' (''agent-'' @ decimal (Date_now example_world))
       ''t0'' [(''README.md'', ''100644'', ''blob'', ''b1'')] = Inr ''t1'' \<and>
     git_createCommit example_world ''ghp_1'' ''acme''
       (''agent-'' @ decimal (Date_now example_world)) ''chore: initial agent scaffold'' ''t1''
       [''c0''] = Inr ''c1'' \<and>
     git_updateRef example_world ''ghp_1'' ''acme'' (''agent-'' @ decimal (Date_now example_world))
       ''heads/main'' ''c1'' = Inr ()"
    by (simp only: example_truthy example_host simp_thms)
  note outcomes = buildNewAgentRepo_outcomes
  from outcomes [where w = example_world and env = example_environment
         and summary = "''Issue: Build an agent for metrics''" and token = "''ghp_1''"
         and owner = "''acme''" and ref_sha = "''c0''" and commit_sha = "''c0''"
         and commit_tree = "''t0''" and blob_sha = "''b1''" and tree_sha = "''t1''"
         and newCommit_sha = "''c1''" and e = TypeError] success
  have 1: "buildNewAgentRepo example_world example_environment
             ''Issue: Build an agent for metrics'' =
     ([ReposCreate (''agent-'' @ decimal (Date_now example_world))
         ''Generated agent scaffold from Linda'' True,
       GitGetRef ''acme'' (''agent-'' @ decimal (Date_now example_world)) ''heads/main'',
       GitGetCommit ''acme'' (''agent-'' @ decimal (Date_now example_world)) ''c0'',
       GitCreateBlob ''acme'' (''agent-'' @ decimal (Date_now example_world))
         (''# '' @ (''agent-'' @ decimal (Date_now example_world)) @ [CHR 0x0A, CHR 0x0A] @
          ''Generated by Linda. Summary: '' @ ''Issue: Build an agent for metrics'' @ [CHR 0x0A])
         ''utf-8'',
       GitCreateTree ''acme'' (''agent-'' @ decimal (Date_now example_world)) ''t0''
         [(''README.md'', ''100644'', ''blob'', ''b1'')],
       GitCreateCommit ''acme'' (''agent-'' @ decimal (Date_now example_world))
         ''chore: initial agent scaffold'' ''t1'' [''c0''],
       GitUpdateRef ''acme'' (''agent-'' @ decimal (Date_now example_world)) ''heads/main'' ''c1''],
      Inr (''Created new agent repository: '' @ (''agent-'' @ decimal (Date_now example_world))))"
    by blast
  from outcomes [where w = example_world and env = "example_environment \<lparr> GITHUB_TOKEN := None \<rparr>"
         and summary = "''Issue: Build an agent for metrics''"] no_token
  have 2: "buildNewAgentRepo example_world (example_environment \<lparr> GITHUB_TOKEN := None \<rparr>)
     ''Issue: Build an agent for metrics'' = ([], Inr ''Missing GITHUB_TOKEN'')"
    by blast
  from outcomes [where w = example_world
         and env = "example_environment \<lparr> GITHUB_OWNER := Some [] \<rparr>"
         and summary = "''Issue: Build an agent for metrics''" and token = "''ghp_1''"] no_owner
  have 3: "buildNewAgentRepo example_world (example_environment \<lparr> GITHUB_OWNER := Some [] \<rparr>)
     ''Issue: Build an agent for metrics'' = ([], Inr ''Missing GITHUB_OWNER'')"
    by blast
  from 1 2 3 show ?thesis
    by (simp add: example_repoName)
qed

text \<open>
  The claim C9 as it is written, with a confirmation for every dispatch that has the
  token and the owner, fails: when the repository host refuses the creation, the builder
  rejects, commits nothing and returns no confirmation.
\<close>

theorem buildNewAgentRepo_counterexample:
  "truthy (GITHUB_TOKEN example_environment) = Some ''ghp_1'' \<and>
   truthy (GITHUB_OWNER example_environment) = Some ''acme'' \<and>
   buildNewAgentRepo failing_host_world example_environment ''Issue: Build an agent for metrics'' =
     ([ReposCreate ''agent-1704067200000'' ''Generated agent scaffold from Linda'' True],
      Inl (Error ''422 Repository creation failed''))"
  by (simp add: example_truthy buildNewAgentRepo_configured [OF example_truthy(4,5)]
      example_repoName example_host)

end
